theory Spec2Isabelle
  imports Complex_Main "HOL-Library.Word"
begin

section \<open>Python values, exceptions and the websocket library's constants\<close>

text \<open>
  The values that travel through \<^verbatim>\<open>WebsocketClient\<close> are dynamically typed. The
  kinds the source distinguishes (\<^verbatim>\<open>None\<close>, \<^verbatim>\<open>dict\<close>/\<^verbatim>\<open>list\<close>, \<^verbatim>\<open>bytes\<close>, numbers,
  anything else) are the constructors of \<open>pyval\<close>; \<open>PObject\<close> stands for a value of any
  other class, named by a tag. Floats are written as rationals.
\<close>

type_synonym byte = "8 word"

datatype pyval =
    PNone
  | PBool bool
  | PInt int
  | PFloat rat
  | PStr string
  | PBytes "byte list"
  | PList "pyval list"
  | PDict "(pyval \<times> pyval) list"
  | PObject string

text \<open>
  Exceptions are values. \<open>LibraryError\<close> is any exception raised inside the
  \<^verbatim>\<open>websocket\<close> library or the socket (connection closed, timeout, handshake
  failure, ...), named by its message.
\<close>

datatype exn =
    ValueError string
  | TypeError
  | AttributeError
  | StructError
  | JSONDecodeError
  | UnicodeDecodeError
  | ValidationFailure
  | SystemExit
  | LibraryError string

text \<open>Constants of the \<^verbatim>\<open>websocket\<close> package (\<^verbatim>\<open>ABNF\<close> and the status codes).\<close>

definition OPCODE_TEXT :: int where "OPCODE_TEXT = 1"
definition OPCODE_BINARY :: int where "OPCODE_BINARY = 2"
definition OPCODE_CLOSE :: int where "OPCODE_CLOSE = 8"
definition LENGTH_16 :: int where "LENGTH_16 = 65536"
definition STATUS_NORMAL :: int where "STATUS_NORMAL = 1000"
definition STATUS_ABNORMAL_CLOSED :: int where "STATUS_ABNORMAL_CLOSED = 1006"

record frame =
  frame_opcode :: int
  frame_data :: "byte list"

section \<open>The transport: a scripted double of \<^verbatim>\<open>websocket.WebSocket\<close>\<close>

text \<open>
  Every call that leaves the repository's code (into the \<^verbatim>\<open>websocket\<close> library,
  the socket, or the clock) is recorded, in order, in the list \<open>io\<close>. What such a call
  answers is not decided by the repository: it is read from the environment \<open>env\<close>,
  indexed by the position of the call in \<open>io\<close>. \<open>fault env n\<close> says whether the call at
  position \<open>n\<close> raises; \<open>frame_in\<close>, \<open>data_in\<close> and \<open>time_at\<close> give what
  \<^verbatim>\<open>recv_frame()\<close>, \<^verbatim>\<open>recv()\<close> and \<^verbatim>\<open>time.time()\<close> return there. The Python built-ins
  the client calls (\<^verbatim>\<open>json.loads\<close>, \<^verbatim>\<open>json.dumps\<close>, \<^verbatim>\<open>str(b, encoding="utf-8")\<close>,
  \<^verbatim>\<open>str\<close>) and the library's \<^verbatim>\<open>isEnabledForError()\<close> are parameters as well.
\<close>

datatype event =
    EConnect string
  | EPing
  | ESend pyval int
  | ERecv
  | ERecvFrame
  | EGetTimeout
  | ESetTimeout "rat option"
  | ESockShutdown
  | ESockClose
  | ETime

datatype level = DEBUG | ERROR

record env =
  fault :: "nat \<Rightarrow> exn option"
  frame_in :: "nat \<Rightarrow> frame"
  data_in :: "nat \<Rightarrow> pyval"
  time_at :: "nat \<Rightarrow> rat"
  enabled_for_error :: bool
  json_loads :: "pyval \<Rightarrow> exn + pyval"
  json_dumps :: "pyval \<Rightarrow> exn + string"
  utf8_decode :: "byte list \<Rightarrow> exn + string"
  py_str :: "pyval \<Rightarrow> string"

text \<open>
  The state of one \<^verbatim>\<open>WebsocketClient\<close>: its own attributes (\<^verbatim>\<open>self.text\<close>,
  \<^verbatim>\<open>self.binary\<close>, \<^verbatim>\<open>self.status_code\<close>), the attributes of \<^verbatim>\<open>self.client\<close> that
  the source reads or writes (\<^verbatim>\<open>connected\<close>, \<^verbatim>\<open>status\<close>, whether \<^verbatim>\<open>sock\<close> is set,
  the socket's timeout, \<^verbatim>\<open>sock_opt.timeout\<close>), the calls made so far and the lines
  logged through \<^verbatim>\<open>loguru\<close> (level and the status logged).
\<close>

record world =
  io :: "event list"
  logs :: "(level \<times> int) list"
  client_connected :: bool
  client_status :: "int option"
  client_sock_open :: bool
  client_sock_timeout :: "rat option"
  client_opt_timeout :: "rat option"
  self_text :: pyval
  self_binary :: pyval
  self_status_code :: "int option"

text \<open>\<^verbatim>\<open>WebsocketClient.__init__\<close>: a fresh, unconnected \<^verbatim>\<open>WebSocket()\<close>.\<close>

definition init_client :: world where
  "init_client =
     \<lparr>io = [], logs = [], client_connected = False, client_status = None,
      client_sock_open = False, client_sock_timeout = None, client_opt_timeout = None,
      self_text = PNone, self_binary = PNone, self_status_code = None\<rparr>"

text \<open>One external call: record it and read from the script whether it raises.\<close>

definition call :: "env \<Rightarrow> event \<Rightarrow> world \<Rightarrow> exn option \<times> world" where
  "call env ev w = (fault env (length (io w)), w\<lparr>io := io w @ [ev]\<rparr>)"

text \<open>\<^verbatim>\<open>self.client.connect(url, **options)\<close>: on success the handle is connected, has a
  socket, and carries the handshake status 101.\<close>

definition client_connect :: "env \<Rightarrow> string \<Rightarrow> world \<Rightarrow> (exn + unit) \<times> world" where
  "client_connect env url w =
     (case call env (EConnect url) w of
        (Some e, w1) \<Rightarrow> (Inl e, w1)
      | (None, w1) \<Rightarrow>
          (Inr (), w1\<lparr>client_connected := True, client_sock_open := True,
                      client_sock_timeout := client_opt_timeout w1,
                      client_status := Some 101\<rparr>))"

definition client_ping :: "env \<Rightarrow> world \<Rightarrow> (exn + unit) \<times> world" where
  "client_ping env w =
     (case call env EPing w of (Some e, w1) \<Rightarrow> (Inl e, w1) | (None, w1) \<Rightarrow> (Inr (), w1))"

definition client_send :: "env \<Rightarrow> pyval \<Rightarrow> int \<Rightarrow> world \<Rightarrow> (exn + unit) \<times> world" where
  "client_send env payload opcode w =
     (case call env (ESend payload opcode) w of
        (Some e, w1) \<Rightarrow> (Inl e, w1) | (None, w1) \<Rightarrow> (Inr (), w1))"

definition client_recv :: "env \<Rightarrow> world \<Rightarrow> (exn + pyval) \<times> world" where
  "client_recv env w =
     (case call env ERecv w of
        (Some e, w1) \<Rightarrow> (Inl e, w1) | (None, w1) \<Rightarrow> (Inr (data_in env (length (io w))), w1))"

definition client_recv_frame :: "env \<Rightarrow> world \<Rightarrow> (exn + frame) \<times> world" where
  "client_recv_frame env w =
     (case call env ERecvFrame w of
        (Some e, w1) \<Rightarrow> (Inl e, w1) | (None, w1) \<Rightarrow> (Inr (frame_in env (length (io w))), w1))"

text \<open>\<^verbatim>\<open>self.client.sock.gettimeout()\<close>, \<^verbatim>\<open>.settimeout(t)\<close>, \<^verbatim>\<open>.shutdown(SHUT_RDWR)\<close>: with
  \<^verbatim>\<open>sock\<close> unset the attribute lookup on \<^verbatim>\<open>None\<close> raises before any call is made.\<close>

definition sock_gettimeout :: "env \<Rightarrow> world \<Rightarrow> (exn + rat option) \<times> world" where
  "sock_gettimeout env w =
     (if \<not> client_sock_open w then (Inl AttributeError, w)
      else case call env EGetTimeout w of
             (Some e, w1) \<Rightarrow> (Inl e, w1)
           | (None, w1) \<Rightarrow> (Inr (client_sock_timeout w1), w1))"

definition sock_settimeout :: "env \<Rightarrow> rat option \<Rightarrow> world \<Rightarrow> (exn + unit) \<times> world" where
  "sock_settimeout env t w =
     (if \<not> client_sock_open w then (Inl AttributeError, w)
      else case call env (ESetTimeout t) w of
             (Some e, w1) \<Rightarrow> (Inl e, w1)
           | (None, w1) \<Rightarrow> (Inr (), w1\<lparr>client_sock_timeout := t\<rparr>))"

definition sock_shutdown :: "env \<Rightarrow> world \<Rightarrow> (exn + unit) \<times> world" where
  "sock_shutdown env w =
     (if \<not> client_sock_open w then (Inl AttributeError, w)
      else case call env ESockShutdown w of
             (Some e, w1) \<Rightarrow> (Inl e, w1) | (None, w1) \<Rightarrow> (Inr (), w1))"

text \<open>\<^verbatim>\<open>self.client.shutdown()\<close> of the library: close the socket if there is one, drop
  it, and mark the handle unconnected. Closing a socket does not raise.\<close>

definition client_shutdown :: "world \<Rightarrow> world" where
  "client_shutdown w =
     (if client_sock_open w
      then w\<lparr>io := io w @ [ESockClose], client_sock_open := False, client_connected := False\<rparr>
      else w)"

text \<open>\<^verbatim>\<open>self.client.settimeout(t)\<close> of the library: remember the timeout for later
  sockets and set it on the current one, if any.\<close>

definition client_settimeout :: "env \<Rightarrow> rat option \<Rightarrow> world \<Rightarrow> (exn + unit) \<times> world" where
  "client_settimeout env t w =
     (let w0 = w\<lparr>client_opt_timeout := t\<rparr>
      in if client_sock_open w0 then sock_settimeout env t w0 else (Inr (), w0))"

definition time_time :: "env \<Rightarrow> world \<Rightarrow> rat \<times> world" where
  "time_time env w = (time_at env (length (io w)), w\<lparr>io := io w @ [ETime]\<rparr>)"

section \<open>\<^verbatim>\<open>WebsocketClient\<close>\<close>

text \<open>\<^verbatim>\<open>"k" in options.keys() and options["k"] is not None\<close>, giving the value.\<close>

definition supplied :: "(string \<rightharpoonup> pyval) \<Rightarrow> string \<Rightarrow> pyval option" where
  "supplied options k =
     (case options k of None \<Rightarrow> None | Some v \<Rightarrow> if v = PNone then None else Some v)"

subsection \<open>\<^verbatim>\<open>write\<close>\<close>

text \<open>The conversion of a text payload (the \<^verbatim>\<open>isinstance\<close> chain of \<^verbatim>\<open>write\<close>).
  The method itself is \<open>write_ws\<close> here, \<open>write\<close> being a command of Isabelle.\<close>

fun text_payload :: "env \<Rightarrow> pyval \<Rightarrow> exn + pyval" where
  "text_payload env (PDict d) = map_sum id PStr (json_dumps env (PDict d))"
| "text_payload env (PList l) = map_sum id PStr (json_dumps env (PList l))"
| "text_payload env (PBytes b) = map_sum id PStr (utf8_decode env b)"
| "text_payload env v = Inr (PStr (py_str env v))"

definition write_ws :: "env \<Rightarrow> (string \<rightharpoonup> pyval) \<Rightarrow> world \<Rightarrow> (exn + unit) \<times> world" where
  "write_ws env options w =
     (case supplied options ''text'' of
        Some payload \<Rightarrow>
          (case text_payload env payload of
             Inl e \<Rightarrow> (Inl e, w)
           | Inr payload' \<Rightarrow> client_send env payload' OPCODE_TEXT w)
      | None \<Rightarrow>
          (case supplied options ''binary'' of
             Some payload \<Rightarrow> client_send env payload OPCODE_BINARY w
           | None \<Rightarrow>
               (Inl (ValueError ''websocket write method miss text or binary. Please check again...''), w)))"

subsection \<open>\<^verbatim>\<open>read\<close>\<close>

definition read :: "env \<Rightarrow> world \<Rightarrow> (exn + pyval) \<times> world" where
  "read env w =
     (case client_recv env w of
        (Inl e, w1) \<Rightarrow> (Inl e, w1)
      | (Inr resp_read, w1) \<Rightarrow>
          (case json_loads env resp_read of
             Inr decoded \<Rightarrow> (Inr decoded, w1)
           | Inl e \<Rightarrow> if e = JSONDecodeError then (Inr resp_read, w1) else (Inl e, w1)))"

subsection \<open>\<^verbatim>\<open>close_connection\<close>\<close>

text \<open>What Python's comparison of a value with an integer sees: the number, or nothing
  when the comparison raises \<^verbatim>\<open>TypeError\<close> (strings, bytes, containers, \<^verbatim>\<open>None\<close>; an
  object of another class is taken to have no ordering with \<^verbatim>\<open>int\<close>).\<close>

fun py_number :: "pyval \<Rightarrow> rat option" where
  "py_number (PInt n) = Some (of_int n)"
| "py_number (PFloat r) = Some r"
| "py_number (PBool b) = Some (if b then 1 else 0)"
| "py_number v = None"

text \<open>\<^verbatim>\<open>struct.pack("!H", v)\<close>: two bytes, big-endian, for an integer in range.\<close>

fun pack_H :: "pyval \<Rightarrow> exn + byte list" where
  "pack_H (PInt n) =
     (if 0 \<le> n \<and> n < 65536 then Inr [word_of_int (n div 256), word_of_int (n mod 256)]
      else Inl StructError)"
| "pack_H (PBool b) = Inr [0, if b then 1 else 0]"
| "pack_H v = Inl StructError"

text \<open>\<^verbatim>\<open>struct.unpack("!H", bs)[0]\<close>: needs exactly two bytes.\<close>

fun unpack_H :: "byte list \<Rightarrow> exn + int" where
  "unpack_H [hi, lo] = Inr (uint hi * 256 + uint lo)"
| "unpack_H bs = Inl StructError"

text \<open>
  The receive loop of \<^verbatim>\<open>close_connection\<close>. It yields the value of \<^verbatim>\<open>resp_status\<close>
  when the loop is left; an exception inside the loop body leaves the loop
  (\<^verbatim>\<open>except: break\<close>). The clock is read at the head of a round only when there is
  a timeout (\<^verbatim>\<open>timeout is None or ...\<close>). \<open>None\<close> is a loop that runs forever.
\<close>

partial_function (option)
  close_wait :: "env \<Rightarrow> rat option \<Rightarrow> rat \<Rightarrow> int \<Rightarrow> world \<Rightarrow> (int \<times> world) option"
where
  "close_wait env timeout start_time resp_status w =
     (case (case timeout of
              None \<Rightarrow> (True, w)
            | Some t \<Rightarrow> (case time_time env w of (now, w1) \<Rightarrow> (now - start_time < t, w1))) of
        (in_time, w1) \<Rightarrow>
          if in_time then
            (case client_recv_frame env w1 of
               (Inl e, w2) \<Rightarrow> Some (resp_status, w2)
             | (Inr frame, w2) \<Rightarrow>
                 if frame_opcode frame \<noteq> OPCODE_CLOSE
                 then close_wait env timeout start_time resp_status w2
                 else if enabled_for_error env then
                   (case unpack_H (take 2 (frame_data frame)) of
                      Inl e \<Rightarrow> Some (resp_status, w2)
                    | Inr recv_status \<Rightarrow>
                        if recv_status \<ge> 3000 \<and> recv_status \<le> 4999
                        then Some (recv_status, w2\<lparr>logs := logs w2 @ [(DEBUG, recv_status)]\<rparr>)
                        else if recv_status \<noteq> STATUS_NORMAL
                        then Some (recv_status, w2\<lparr>logs := logs w2 @ [(ERROR, recv_status)]\<rparr>)
                        else Some (recv_status, w2))
                 else Some (resp_status, w2))
          else Some (resp_status, w1))"

text \<open>
  The body of the outer \<^verbatim>\<open>try\<close>. Its handler is \<^verbatim>\<open>except: pass\<close>, so a statement that
  raises ends the body with the state reached so far and the current \<^verbatim>\<open>resp_status\<close>.
\<close>

definition close_try :: "env \<Rightarrow> pyval \<Rightarrow> rat option \<Rightarrow> int \<Rightarrow> world \<Rightarrow> (int \<times> world) option" where
  "close_try env close_status timeout resp_status w =
     (let w0 = w\<lparr>client_connected := False\<rparr> in
      case pack_H close_status of
        Inl e \<Rightarrow> Some (resp_status, w0)
      | Inr packed \<Rightarrow>
      (case client_send env (PBytes packed) OPCODE_CLOSE w0 of
        (Inl e, w1) \<Rightarrow> Some (resp_status, w1)
      | (Inr u, w1) \<Rightarrow>
      (case sock_gettimeout env w1 of
        (Inl e, w2) \<Rightarrow> Some (resp_status, w2)
      | (Inr sock_timeout, w2) \<Rightarrow>
      (case sock_settimeout env timeout w2 of
        (Inl e, w3) \<Rightarrow> Some (resp_status, w3)
      | (Inr u, w3) \<Rightarrow>
      (case time_time env w3 of
        (start_time, w4) \<Rightarrow>
      (case close_wait env timeout start_time resp_status w4 of
        None \<Rightarrow> None
      | Some (resp_status', w5) \<Rightarrow>
      (case sock_settimeout env sock_timeout w5 of
        (Inl e, w6) \<Rightarrow> Some (resp_status', w6)
      | (Inr u, w6) \<Rightarrow>
      (case sock_shutdown env w6 of
        (r, w7) \<Rightarrow> Some (resp_status', w7)))))))))"

definition close_connection ::
  "env \<Rightarrow> pyval \<Rightarrow> rat option \<Rightarrow> world \<Rightarrow> ((exn + int) \<times> world) option" where
  "close_connection env close_status timeout w =
     (let resp_status = STATUS_ABNORMAL_CLOSED in
      if client_connected w then
        (case py_number close_status of
           None \<Rightarrow> Some (Inl TypeError, w)
         | Some c \<Rightarrow>
             if c < 0 \<or> c \<ge> of_int LENGTH_16
             then Some (Inl (ValueError ''code is invalid range''), w)
             else
               (case close_try env close_status timeout resp_status w of
                  None \<Rightarrow> None
                | Some (resp_status', w1) \<Rightarrow>
                    (let w2 = client_shutdown w1
                     in Some (Inr resp_status', w2\<lparr>self_status_code := Some resp_status'\<rparr>))))
      else Some (Inr resp_status, w\<lparr>self_status_code := Some resp_status\<rparr>))"

subsection \<open>\<^verbatim>\<open>open_connection\<close>, \<^verbatim>\<open>ping\<close>, \<^verbatim>\<open>_set_timeout\<close> and \<^verbatim>\<open>send_request\<close>\<close>

datatype WebsocketMethodEnum = OPEN | PING | W | R | WR | CLOSE

definition open_connection :: "env \<Rightarrow> string \<Rightarrow> world \<Rightarrow> (exn + unit) \<times> world" where
  "open_connection env url w =
     (case client_connect env url w of
        (Inl e, w1) \<Rightarrow> (Inl e, w1)
      | (Inr u, w1) \<Rightarrow> (Inr (), w1\<lparr>self_status_code := client_status w1\<rparr>))"

definition ping :: "env \<Rightarrow> world \<Rightarrow> (exn + unit) \<times> world" where
  "ping env w = client_ping env w"

definition set_timeout :: "env \<Rightarrow> rat option \<Rightarrow> world \<Rightarrow> (exn + unit) \<times> world" where
  "set_timeout env timeout w = client_settimeout env timeout w"

text \<open>\<^verbatim>\<open>self.text = self.read()\<close>.\<close>

definition read_into_text :: "env \<Rightarrow> world \<Rightarrow> (exn + unit) \<times> world" where
  "read_into_text env w =
     (case read env w of
        (Inl e, w1) \<Rightarrow> (Inl e, w1)
      | (Inr v, w1) \<Rightarrow> (Inr (), w1\<lparr>self_text := v\<rparr>))"

text \<open>The branches of \<^verbatim>\<open>send_request\<close> after the timeout has been applied. A
  \<open>request_method\<close> that is no member of the enumeration is \<open>None\<close>.\<close>

definition dispatch ::
  "env \<Rightarrow> WebsocketMethodEnum option \<Rightarrow> string \<Rightarrow> (string \<rightharpoonup> pyval) \<Rightarrow> world
     \<Rightarrow> ((exn + unit) \<times> world) option" where
  "dispatch env request_method url options w =
     (case request_method of
        Some OPEN \<Rightarrow> Some (open_connection env url w)
      | Some PING \<Rightarrow> Some (ping env w)
      | Some W \<Rightarrow> Some (write_ws env options w)
      | Some R \<Rightarrow> Some (read_into_text env w)
      | Some WR \<Rightarrow>
          (case write_ws env options w of
             (Inl e, w1) \<Rightarrow> Some (Inl e, w1)
           | (Inr u, w1) \<Rightarrow> Some (read_into_text env w1))
      | Some CLOSE \<Rightarrow>
          (case (case supplied options ''timeout'' of
                   None \<Rightarrow> Inr 3
                 | Some t \<Rightarrow> (case py_number t of None \<Rightarrow> Inl TypeError | Some ms \<Rightarrow> Inr (ms / 1000))) of
             Inl e \<Rightarrow> Some (Inl e, w)
           | Inr timeout \<Rightarrow>
               (let close_status =
                      (case supplied options ''close_status'' of
                         None \<Rightarrow> PInt STATUS_NORMAL | Some c \<Rightarrow> c)
                in case close_connection env close_status (Some timeout) w of
                     None \<Rightarrow> None
                   | Some (Inl e, w1) \<Rightarrow> Some (Inl e, w1)
                   | Some (Inr status, w1) \<Rightarrow> Some (Inr (), w1)))
      | None \<Rightarrow> Some (Inl (ValueError ''unexpected websocket frame type''), w))"

definition send_request ::
  "env \<Rightarrow> WebsocketMethodEnum option \<Rightarrow> string \<Rightarrow> (string \<rightharpoonup> pyval) \<Rightarrow> world
     \<Rightarrow> ((exn + unit) \<times> world) option" where
  "send_request env request_method url options w =
     (case supplied options ''timeout'' of
        None \<Rightarrow> dispatch env request_method url options w
      | Some t \<Rightarrow>
          (case py_number t of
             None \<Rightarrow> Some (Inl TypeError, w)
           | Some ms \<Rightarrow>
               (case set_timeout env (Some (ms / 1000)) w of
                  (Inl e, w1) \<Rightarrow> Some (Inl e, w1)
                | (Inr u, w1) \<Rightarrow> dispatch env request_method url options w1)))"

section \<open>The step orchestrator: \<^verbatim>\<open>run_step_websocket_request\<close>\<close>

text \<open>
  The records of \<^verbatim>\<open>httprunner.models\<close> with the fields the orchestrator touches. A
  \<open>TWebsocketRequest\<close> is also the shape of the dictionary \<^verbatim>\<open>step.websocket_request.dict()\<close>
  and of its parsed copy. Fields of a \<open>StepResult\<close> that the constructor call of the
  orchestrator leaves unset are \<open>None\<close>.
\<close>

type_synonym variables = "(string \<times> pyval) list"

record TWebsocketRequest =
  req_type :: "WebsocketMethodEnum option"
  req_url :: string
  req_headers :: "(string \<times> pyval) list"
  req_new_connection :: bool
  req_timeout :: pyval
  req_text :: pyval
  req_binary :: pyval
  req_close_status :: pyval

record TStep =
  step_name :: string
  step_variables :: variables
  step_websocket_request :: TWebsocketRequest
  step_setup_hooks :: "pyval list"
  step_teardown_hooks :: "pyval list"
  step_extract :: "(string \<times> string) list"
  step_validators :: "pyval list"

record SessionData =
  sd_success :: bool
  sd_validators :: pyval

record StepResult =
  res_name :: string
  res_step_type :: string
  res_success :: bool
  res_content_size :: int
  res_export_vars :: "variables option"
  res_failure_info :: "string option"
  res_data :: "SessionData option"
  res_elapsed :: "rat option"

text \<open>What \<^verbatim>\<open>resp_obj.validate\<close> leaves behind: the exception it raised, if any, and the
  attributes \<^verbatim>\<open>validation_results\<close> and \<^verbatim>\<open>failures_string\<close> of the response object.\<close>

record validation =
  raised :: "exn option"
  validation_results :: pyval
  failures_string :: string

text \<open>
  The collaborators of the orchestrator that live in other modules of the package
  (\<^verbatim>\<open>httprunner.parser\<close>, \<^verbatim>\<open>httprunner.runner\<close>, \<^verbatim>\<open>httprunner.response\<close>,
  \<^verbatim>\<open>httprunner.step_request\<close>) are parameters; each may raise. \<open>parse_variables\<close> is
  \<^verbatim>\<open>merge_step_variables\<close> followed by \<^verbatim>\<open>parse_variables_mapping\<close>. The bindings
  \<^verbatim>\<open>"websocket"\<close> and \<^verbatim>\<open>"response"\<close> of the step variables are handed to the
  collaborators as arguments of their own (the request dictionary, the client).
  \<open>now k\<close> is the \<open>k\<close>-th reading of \<^verbatim>\<open>time.time()\<close> that the orchestrator itself takes,
  \<open>websocket_ready\<close> the module flag \<^verbatim>\<open>WEBSOCKET_READY\<close>.
\<close>

record collaborators =
  parse_variables :: "variables \<Rightarrow> exn + variables"
  parse_data :: "TWebsocketRequest \<Rightarrow> variables \<Rightarrow> exn + TWebsocketRequest"
  call_hooks :: "pyval list \<Rightarrow> variables \<Rightarrow> TWebsocketRequest \<Rightarrow> world \<Rightarrow> exn + variables"
  build_url :: "string \<Rightarrow> string \<Rightarrow> exn + string"
  extract_values :: "(string \<times> string) list \<Rightarrow> variables \<Rightarrow> world \<Rightarrow> exn + variables"
  validate :: "pyval list \<Rightarrow> variables \<Rightarrow> world \<Rightarrow> validation"
  now :: "nat \<Rightarrow> rat"
  websocket_ready :: bool

record runner =
  websocket_client :: "world option"
  case_id :: string
  base_url :: string
  session_data :: SessionData

subsection \<open>Headers\<close>

definition startswith :: "string \<Rightarrow> string \<Rightarrow> bool" where
  "startswith s prefix = (take (length prefix) s = prefix)"

text \<open>The dictionary comprehension that omits the pseudo header names.\<close>

definition omit_pseudo_headers :: "(string \<times> 'v) list \<Rightarrow> (string \<times> 'v) list" where
  "omit_pseudo_headers request_headers =
     filter (\<lambda>(key, v). \<not> startswith key '':'') request_headers"

text \<open>\<^verbatim>\<open>d[k] = v\<close> on a dictionary kept in insertion order.\<close>

fun dict_set :: "(string \<times> 'v) list \<Rightarrow> string \<Rightarrow> 'v \<Rightarrow> (string \<times> 'v) list" where
  "dict_set [] k v = [(k, v)]"
| "dict_set ((k', v') # d) k v = (if k' = k then (k, v) # d else (k', v') # dict_set d k v)"

text \<open>\<^verbatim>\<open>d.update(other)\<close>.\<close>

definition dict_update :: "(string \<times> 'v) list \<Rightarrow> (string \<times> 'v) list \<Rightarrow> (string \<times> 'v) list" where
  "dict_update d other = foldl (\<lambda>acc (k, v). dict_set acc k v) d other"

text \<open>\<^verbatim>\<open>str(n)\<close> for an integer, and \<^verbatim>\<open>s[-6:]\<close>.\<close>

fun str_nat :: "nat \<Rightarrow> string" where
  "str_nat n =
     (if n < 10 then [''0123456789'' ! n] else str_nat (n div 10) @ [''0123456789'' ! (n mod 10)])"

definition str_int :: "int \<Rightarrow> string" where
  "str_int i = (if i < 0 then CHR ''-'' # str_nat (nat (- i)) else str_nat (nat i))"

definition last6 :: "string \<Rightarrow> string" where
  "last6 s = drop (length s - 6) s"

text \<open>\<^verbatim>\<open>int(x)\<close> truncates towards zero.\<close>

definition py_int :: "rat \<Rightarrow> int" where
  "py_int x = (if x < 0 then - \<lfloor>- x\<rfloor> else \<lfloor>x\<rfloor>)"

definition request_id :: "string \<Rightarrow> rat \<Rightarrow> string" where
  "request_id cid t = ''HRUN-'' @ cid @ ''-'' @ last6 (str_int (py_int (t * 1000)))"

definition resolve_headers :: "string \<Rightarrow> rat \<Rightarrow> (string \<times> pyval) list \<Rightarrow> (string \<times> pyval) list" where
  "resolve_headers cid t request_headers =
     dict_set (omit_pseudo_headers request_headers) ''HRUN-Websocket-Request-ID''
       (PStr (request_id cid t))"

text \<open>The keyword arguments of the call of \<^verbatim>\<open>send_request\<close>.\<close>

definition request_options :: "TWebsocketRequest \<Rightarrow> (string \<rightharpoonup> pyval)" where
  "request_options d =
     [''header'' \<mapsto> PDict (map (\<lambda>(k, v). (PStr k, v)) (req_headers d)),
      ''timeout'' \<mapsto> req_timeout d,
      ''text'' \<mapsto> req_text d,
      ''binary'' \<mapsto> req_binary d,
      ''close_status'' \<mapsto> req_close_status d]"

subsection \<open>The phases of the run\<close>

text \<open>
  The last phase: \<^verbatim>\<open>try: validate ... except ValidationFailure: ... finally: ... return\<close>.
  The \<^verbatim>\<open>return\<close> inside \<^verbatim>\<open>finally\<close> discards an exception of any other class that
  \<^verbatim>\<open>validate\<close> raised, leaving \<^verbatim>\<open>success\<close> as it was.
\<close>

definition validate_and_finish ::
  "collaborators \<Rightarrow> TStep \<Rightarrow> rat \<Rightarrow> variables \<Rightarrow> world \<Rightarrow> runner \<Rightarrow> StepResult
     \<Rightarrow> StepResult \<times> runner" where
  "validate_and_finish coll step start_time variables_mapping client rn step_result =
     (let v = validate coll (step_validators step) variables_mapping client;
          step_result1 =
            (case raised v of
               None \<Rightarrow> step_result\<lparr>res_success := True\<rparr>
             | Some e \<Rightarrow>
                 if e = ValidationFailure
                 then step_result\<lparr>res_success := False, res_failure_info := Some (failures_string v)\<rparr>
                 else step_result);
          session_data1 =
            (session_data rn)\<lparr>sd_success := res_success step_result1,
                               sd_validators := validation_results v\<rparr>;
          step_result2 =
            step_result1\<lparr>res_data := Some session_data1,
                          res_elapsed := Some (now coll 2 - start_time)\<rparr>
      in (step_result2, rn\<lparr>session_data := session_data1\<rparr>))"

text \<open>From the response on: teardown hooks, extraction, validation.\<close>

definition after_request ::
  "collaborators \<Rightarrow> TStep \<Rightarrow> rat \<Rightarrow> variables \<Rightarrow> TWebsocketRequest \<Rightarrow> world \<Rightarrow> runner
     \<Rightarrow> StepResult \<Rightarrow> (exn + StepResult) \<times> runner" where
  "after_request coll step start_time vars d client rn step_result =
     (case (if step_teardown_hooks step \<noteq> []
            then call_hooks coll (step_teardown_hooks step) vars d client else Inr vars) of
        Inl e \<Rightarrow> (Inl e, rn)
      | Inr vars1 \<Rightarrow>
          (case extract_values coll (step_extract step) vars1 client of
             Inl e \<Rightarrow> (Inl e, rn)
           | Inr extract_mapping \<Rightarrow>
               (case validate_and_finish coll step start_time (dict_update vars1 extract_mapping) client rn
                       (step_result\<lparr>res_export_vars := Some extract_mapping\<rparr>) of
                  (r, rn1) \<Rightarrow> (Inr r, rn1))))"

text \<open>
  The whole step. Logging and the ALLURE attachments leave no trace in the result and
  are not part of the model. \<open>None\<close> is a run whose close handshake never ends.
\<close>

definition run_step_websocket_request ::
  "collaborators \<Rightarrow> env \<Rightarrow> runner \<Rightarrow> TStep \<Rightarrow> ((exn + StepResult) \<times> runner) option" where
  "run_step_websocket_request coll env rn step =
     (let step_result =
            \<lparr>res_name = step_name step, res_step_type = ''websocket request'',
             res_success = False, res_content_size = 0, res_export_vars = None,
             res_failure_info = None, res_data = None, res_elapsed = None\<rparr>;
          start_time = now coll 0
      in case parse_variables coll (step_variables step) of
        Inl e \<Rightarrow> Some (Inl e, rn)
      | Inr vars \<Rightarrow>
      (case parse_data coll (step_websocket_request step) vars of
        Inl e \<Rightarrow> Some (Inl e, rn)
      | Inr parsed \<Rightarrow>
      (let d = parsed\<lparr>req_headers := resolve_headers (case_id rn) (now coll 1) (req_headers parsed)\<rparr>
       in case (case websocket_client rn of
                  Some c \<Rightarrow> Inr c
                | None \<Rightarrow> if websocket_ready coll then Inr init_client else Inl SystemExit) of
        Inl e \<Rightarrow> Some (Inl e, rn)
      | Inr client \<Rightarrow>
      (let rn1 = rn\<lparr>websocket_client := Some client\<rparr>
       in case (if step_setup_hooks step \<noteq> []
                then call_hooks coll (step_setup_hooks step) vars d client else Inr vars) of
        Inl e \<Rightarrow> Some (Inl e, rn1)
      | Inr vars1 \<Rightarrow>
      (case build_url coll (base_url rn1) (req_url d) of
        Inl e \<Rightarrow> Some (Inl e, rn1)
      | Inr url \<Rightarrow>
      (case send_request env (req_type d) url (request_options d) client of
        None \<Rightarrow> None
      | Some (Inl e, client1) \<Rightarrow> Some (Inl e, rn1\<lparr>websocket_client := Some client1\<rparr>)
      | Some (Inr u, client1) \<Rightarrow>
          Some (after_request coll step start_time vars1 d client1
                  (rn1\<lparr>websocket_client := Some client1\<rparr>) step_result)))))))"

section \<open>Test doubles\<close>

text \<open>
  Stand-ins for the Python built-ins, defined on the few values the examples use:
  \<^verbatim>\<open>json.loads\<close> knows one document, \<^verbatim>\<open>json.dumps\<close> two structures, the decoder
  the bytes of \<^verbatim>\<open>hi\<close>, \<^verbatim>\<open>str\<close> strings and the integer 42.
\<close>

definition sample_json_loads :: "pyval \<Rightarrow> exn + pyval" where
  \<open>sample_json_loads v =
     (if v = PStr ''{"a":1}'' then Inr (PDict [(PStr ''a'', PInt 1)]) else Inl JSONDecodeError)\<close>

definition sample_json_dumps :: "pyval \<Rightarrow> exn + string" where
  \<open>sample_json_dumps v =
     (if v = PDict [(PStr ''a'', PInt 1)] then Inr ''{"a": 1}''
      else if v = PList [PInt 1] then Inr ''[1]'' else Inl TypeError)\<close>

definition sample_decode :: "byte list \<Rightarrow> exn + string" where
  "sample_decode bs = (if bs = [104, 105] then Inr ''hi'' else Inl UnicodeDecodeError)"

definition sample_str :: "pyval \<Rightarrow> string" where
  "sample_str v = (if v = PInt 42 then ''42'' else case v of PStr s \<Rightarrow> s | _ \<Rightarrow> ''<object>'')"

text \<open>
  A peer that answers every \<^verbatim>\<open>recv_frame()\<close> with a close frame of status 1000 and
  every \<^verbatim>\<open>recv()\<close> with the text \<^verbatim>\<open>{"a":1}\<close>, on a transport where no call fails and
  each call takes a tenth of a second.
\<close>

definition echo_env :: env where
  \<open>echo_env =
     \<lparr>fault = (\<lambda>n. None),
      frame_in = (\<lambda>n. \<lparr>frame_opcode = 8, frame_data = [3, 232]\<rparr>),
      data_in = (\<lambda>n. PStr ''{"a":1}''),
      time_at = (\<lambda>n. of_nat n / 10),
      enabled_for_error = True,
      json_loads = sample_json_loads, json_dumps = sample_json_dumps,
      utf8_decode = sample_decode, py_str = sample_str\<rparr>\<close>

text \<open>A peer that only ever sends ping frames (opcode 9); each call takes a second.\<close>

definition silent_env :: env where
  "silent_env =
     echo_env\<lparr>frame_in := (\<lambda>n. \<lparr>frame_opcode = 9, frame_data = []\<rparr>),
              data_in := (\<lambda>n. PStr ''not-json''),
              time_at := (\<lambda>n. of_nat n)\<rparr>"

text \<open>A handle after a successful handshake, with a blocking socket of timeout 7.\<close>

definition connected_client :: world where
  "connected_client =
     init_client\<lparr>client_connected := True, client_status := Some 101,
                 client_sock_open := True, client_sock_timeout := Some 7\<rparr>"

text \<open>The handle \<open>connected_client\<close> after a close handshake that the peer answered with
  status 1000: the calls of the handshake are in the trace, the socket is gone.\<close>

definition closed_client :: world where
  "closed_client =
     connected_client\<lparr>io := [ESend (PBytes [3, 232]) 8, EGetTimeout, ESetTimeout (Some 3), ETime,
                             ETime, ERecvFrame, ESetTimeout (Some 7), ESockShutdown, ESockClose],
                      client_connected := False, client_sock_open := False,
                      self_status_code := Some 1000\<rparr>"

text \<open>The echoing peer again, with the \<^verbatim>\<open>websocket\<close> logger disabled for errors.\<close>

definition unlogged_env :: env where
  "unlogged_env = echo_env\<lparr>enabled_for_error := False\<rparr>"

text \<open>The silent peer on a socket whose first \<^verbatim>\<open>recv_frame()\<close> of the close handshake
  (the call at position 5) runs into the socket timeout.\<close>

definition timeout_env :: env where
  "timeout_env =
     silent_env\<lparr>fault := (\<lambda>n. if n = 5 then Some (LibraryError ''timed out'') else None)\<rparr>"

text \<open>
  Collaborators that resolve nothing and never fail, with a clock that advances one
  second per reading; a validation in which the first of two assertions fails; a runner
  that has not opened a client yet; a step that opens a connection.
\<close>

definition plain_coll :: collaborators where
  "plain_coll =
     \<lparr>parse_variables = (\<lambda>vars. Inr vars),
      parse_data = (\<lambda>d vars. Inr d),
      call_hooks = (\<lambda>hooks vars d c. Inr vars),
      build_url = (\<lambda>base path. Inr (base @ path)),
      extract_values = (\<lambda>extractors vars c. Inr []),
      validate = (\<lambda>validators vars c.
         \<lparr>raised = None, validation_results = PList [PStr ''pass'', PStr ''pass''],
          failures_string = []\<rparr>),
      now = (\<lambda>k. of_nat k),
      websocket_ready = True\<rparr>"

definition failing_coll :: collaborators where
  "failing_coll =
     plain_coll\<lparr>validate := (\<lambda>validators vars c.
         \<lparr>raised = Some ValidationFailure,
          validation_results = PList [PStr ''fail'', PStr ''pass''],
          failures_string = ''assert status_code equal 200''\<rparr>)\<rparr>"

definition fresh_runner :: runner where
  "fresh_runner =
     \<lparr>websocket_client = None, case_id = ''abc123'', base_url = ''ws://echo'',
      session_data = \<lparr>sd_success = False, sd_validators = PNone\<rparr>\<rparr>"

definition open_step :: TStep where
  "open_step =
     \<lparr>step_name = ''open'', step_variables = [],
      step_websocket_request =
        \<lparr>req_type = Some OPEN, req_url = ''/ws'',
         req_headers = [('':authority'', PStr ''x''), (''User-Agent'', PStr ''y'')],
         req_new_connection = False, req_timeout = PNone, req_text = PNone,
         req_binary = PNone, req_close_status = PNone\<rparr>,
      step_setup_hooks = [], step_teardown_hooks = [], step_extract = [],
      step_validators = [PStr ''v1'', PStr ''v2'']\<rparr>"

text \<open>A transport on which every call fails: the server refuses the connection.\<close>

definition refusing_env :: env where
  "refusing_env = echo_env\<lparr>fault := (\<lambda>n. Some (LibraryError ''connection refused''))\<rparr>"

text \<open>A peer that sends binary frames of the one byte 255, which is no UTF-8:
  \<^verbatim>\<open>json.loads\<close> raises \<^verbatim>\<open>UnicodeDecodeError\<close> on such a payload.\<close>

definition binary_env :: env where
  "binary_env =
     echo_env\<lparr>data_in := (\<lambda>n. PBytes [255]),
              json_loads := (\<lambda>v. if v = PBytes [255] then Inl UnicodeDecodeError
                                 else sample_json_loads v)\<rparr>"

section \<open>Properties of \<^verbatim>\<open>write\<close> and \<^verbatim>\<open>read\<close>\<close>

lemma client_send_eq:
  "client_send env p opc w =
     (case fault env (length (io w)) of Some e \<Rightarrow> Inl e | None \<Rightarrow> Inr (),
      w\<lparr>io := io w @ [ESend p opc]\<rparr>)"
  by (simp add: client_send_def call_def split: option.splits)

text \<open>
  Claim C5, as the code has it. \<^verbatim>\<open>write\<close> raises \<^verbatim>\<open>ValueError\<close> and leaves the transport
  untouched when neither \<^verbatim>\<open>text\<close> nor \<^verbatim>\<open>binary\<close> is supplied (absent or \<^verbatim>\<open>None\<close>). With
  only \<^verbatim>\<open>binary\<close> supplied it makes exactly one \<^verbatim>\<open>send\<close> call, with the binary opcode
  and the payload as it is. With only \<^verbatim>\<open>text\<close> supplied the payload is converted
  first: \<^verbatim>\<open>json.dumps\<close> for a dict or a list, UTF-8 decoding for bytes, \<^verbatim>\<open>str\<close> for
  everything else. When the conversion succeeds, \<^verbatim>\<open>write\<close> makes exactly one \<^verbatim>\<open>send\<close>
  call, with the text opcode and the converted payload. When the conversion raises, as
  \<^verbatim>\<open>json.dumps\<close> and the decoding can, \<^verbatim>\<open>write\<close> raises that exception and sends
  nothing. The outcome of a \<^verbatim>\<open>send\<close> call is the outcome of \<^verbatim>\<open>write\<close>.
\<close>

theorem write_one_frame:
  "(supplied options ''text'' = None \<and> supplied options ''binary'' = None \<longrightarrow>
      write_ws env options w =
        (Inl (ValueError ''websocket write method miss text or binary. Please check again...''), w))
   \<and> (supplied options ''text'' = Some v \<and> supplied options ''binary'' = None
        \<and> text_payload env v = Inr p \<longrightarrow>
      write_ws env options w =
        (case fault env (length (io w)) of Some e \<Rightarrow> Inl e | None \<Rightarrow> Inr (),
         w\<lparr>io := io w @ [ESend p OPCODE_TEXT]\<rparr>))
   \<and> (supplied options ''text'' = Some v \<and> supplied options ''binary'' = None
        \<and> text_payload env v = Inl x \<longrightarrow>
      write_ws env options w = (Inl x, w))
   \<and> (supplied options ''text'' = None \<and> supplied options ''binary'' = Some b \<longrightarrow>
      write_ws env options w =
        (case fault env (length (io w)) of Some e \<Rightarrow> Inl e | None \<Rightarrow> Inr (),
         w\<lparr>io := io w @ [ESend b OPCODE_BINARY]\<rparr>))
   \<and> ((v = PDict d \<or> v = PList l) \<longrightarrow>
        text_payload env v = map_sum id PStr (json_dumps env v))
   \<and> (v = PBytes bs \<longrightarrow> text_payload env v = map_sum id PStr (utf8_decode env bs))
   \<and> ((\<forall>d. v \<noteq> PDict d) \<and> (\<forall>l. v \<noteq> PList l) \<and> (\<forall>bs. v \<noteq> PBytes bs) \<longrightarrow>
        text_payload env v = Inr (PStr (py_str env v)))"
proof -
  have other: "(\<forall>d. v \<noteq> PDict d) \<and> (\<forall>l. v \<noteq> PList l) \<and> (\<forall>bs. v \<noteq> PBytes bs) \<longrightarrow>
        text_payload env v = Inr (PStr (py_str env v))"
    by (cases v) simp_all
  show ?thesis
    using other by (auto simp add: write_ws_def client_send_eq)
qed

theorem write_one_frame_witness:
  \<open>write_ws echo_env [''binary'' \<mapsto> PNone] connected_client =
     (Inl (ValueError ''websocket write method miss text or binary. Please check again...''),
      connected_client)
   \<and> write_ws echo_env [''text'' \<mapsto> PDict [(PStr ''a'', PInt 1)], ''binary'' \<mapsto> PNone]
        connected_client =
       (Inr (), connected_client\<lparr>io := [ESend (PStr ''{"a": 1}'') OPCODE_TEXT]\<rparr>)
   \<and> write_ws echo_env [''text'' \<mapsto> PBytes [104, 105]] connected_client =
       (Inr (), connected_client\<lparr>io := [ESend (PStr ''hi'') OPCODE_TEXT]\<rparr>)
   \<and> write_ws echo_env [''text'' \<mapsto> PInt 42] connected_client =
       (Inr (), connected_client\<lparr>io := [ESend (PStr ''42'') OPCODE_TEXT]\<rparr>)
   \<and> write_ws echo_env [''binary'' \<mapsto> PBytes [0, 255]] connected_client =
       (Inr (), connected_client\<lparr>io := [ESend (PBytes [0, 255]) OPCODE_BINARY]\<rparr>)
   \<and> write_ws echo_env [''text'' \<mapsto> PList [PObject ''socket'']] connected_client =
       (Inl TypeError, connected_client)\<close>
  using
    write_one_frame [where options = "[''binary'' \<mapsto> PNone]" and env = echo_env
       and w = connected_client and v = PNone and p = PNone and b = PNone and d = "[]" and l = "[]"
       and x = TypeError and bs = "[]"]
    write_one_frame [where options = \<open>[''text'' \<mapsto> PDict [(PStr ''a'', PInt 1)], ''binary'' \<mapsto> PNone]\<close>
       and env = echo_env and w = connected_client and v = \<open>PDict [(PStr ''a'', PInt 1)]\<close>
       and p = \<open>PStr ''{"a": 1}''\<close> and b = PNone and d = \<open>[(PStr ''a'', PInt 1)]\<close> and l = "[]"
       and x = TypeError and bs = "[]"]
    write_one_frame [where options = \<open>[''text'' \<mapsto> PBytes [104, 105]]\<close>
       and env = echo_env and w = connected_client and v = \<open>PBytes [104, 105]\<close>
       and p = \<open>PStr ''hi''\<close> and b = PNone and d = "[]" and l = "[]"
       and x = TypeError and bs = "[104, 105]"]
    write_one_frame [where options = \<open>[''text'' \<mapsto> PInt 42]\<close>
       and env = echo_env and w = connected_client and v = \<open>PInt 42\<close>
       and p = \<open>PStr ''42''\<close> and b = PNone and d = "[]" and l = "[]"
       and x = TypeError and bs = "[]"]
    write_one_frame [where options = \<open>[''binary'' \<mapsto> PBytes [0, 255]]\<close>
       and env = echo_env and w = connected_client and v = \<open>PNone\<close>
       and p = \<open>PNone\<close> and b = "PBytes [0, 255]" and d = "[]" and l = "[]"
       and x = TypeError and bs = "[]"]
    write_one_frame [where options = \<open>[''text'' \<mapsto> PList [PObject ''socket'']]\<close>
       and env = echo_env and w = connected_client and v = \<open>PList [PObject ''socket'']\<close>
       and p = \<open>PNone\<close> and b = PNone and d = "[]" and l = "[PObject ''socket'']"
       and x = TypeError and bs = "[]"]
  by (simp add: supplied_def echo_env_def sample_json_dumps_def sample_decode_def sample_str_def
        connected_client_def init_client_def)

text \<open>
  The claim as the specification words it promises one frame whenever exactly one of
  the two is supplied. With \<^verbatim>\<open>text\<close> alone supplied as the byte 255, which is no UTF-8,
  \<^verbatim>\<open>write\<close> raises \<^verbatim>\<open>UnicodeDecodeError\<close>, an error of another class than the argument
  error, and nothing is sent.
\<close>

theorem write_one_frame_counterexample:
  "write_ws echo_env [''text'' \<mapsto> PBytes [255]] connected_client =
     (Inl UnicodeDecodeError, connected_client)"
  by (simp add: write_ws_def supplied_def echo_env_def sample_decode_def)

text \<open>
  Claim C10, as the code has it. With both \<^verbatim>\<open>text\<close> and \<^verbatim>\<open>binary\<close> supplied, \<^verbatim>\<open>write\<close>
  behaves exactly as if \<^verbatim>\<open>binary\<close> had not been given, so it raises no argument error
  and never sends the binary payload. When the text converts to \<open>p\<close>, its only transport
  call is one \<^verbatim>\<open>send\<close> of \<open>p\<close> with the text opcode, which returns normally whenever
  that call does. When the conversion of the text raises, \<^verbatim>\<open>write\<close> raises that
  exception and sends nothing.
\<close>

theorem write_text_precedence:
  "supplied options ''text'' = Some v \<and> supplied options ''binary'' = Some b \<longrightarrow>
     write_ws env options w = write_ws env (options(''binary'' := None)) w
     \<and> (\<forall>p. text_payload env v = Inr p \<longrightarrow>
          write_ws env options w =
            (case fault env (length (io w)) of Some e \<Rightarrow> Inl e | None \<Rightarrow> Inr (),
             w\<lparr>io := io w @ [ESend p OPCODE_TEXT]\<rparr>))
     \<and> (\<forall>x. text_payload env v = Inl x \<longrightarrow> write_ws env options w = (Inl x, w))
     \<and> (io (snd (write_ws env options w)) = io w
          \<or> (\<exists>p. io (snd (write_ws env options w)) = io w @ [ESend p OPCODE_TEXT]))"
  by (auto simp add: write_ws_def supplied_def client_send_eq split: sum.splits option.splits)

theorem write_text_precedence_witness:
  "write_ws echo_env [''text'' \<mapsto> PStr ''ping'', ''binary'' \<mapsto> PBytes [1, 2]] connected_client =
     (Inr (), connected_client\<lparr>io := [ESend (PStr ''ping'') OPCODE_TEXT]\<rparr>)"
proof -
  let ?options = "[''text'' \<mapsto> PStr ''ping'', ''binary'' \<mapsto> PBytes [1, 2]]"
  have both: "supplied ?options ''text'' = Some (PStr ''ping'')
      \<and> supplied ?options ''binary'' = Some (PBytes [1, 2])"
    by (simp add: supplied_def)
  have "\<forall>p. text_payload echo_env (PStr ''ping'') = Inr p \<longrightarrow>
          write_ws echo_env ?options connected_client =
            (case fault echo_env (length (io connected_client)) of
               Some e \<Rightarrow> Inl e | None \<Rightarrow> Inr (),
             connected_client\<lparr>io := io connected_client @ [ESend p OPCODE_TEXT]\<rparr>)"
    using write_text_precedence [where options = ?options and env = echo_env
        and w = connected_client and v = "PStr ''ping''" and b = "PBytes [1, 2]"] both
    by blast
  then show ?thesis
    by (simp add: echo_env_def sample_str_def connected_client_def init_client_def)
qed

text \<open>
  The claim as the specification words it promises that \<^verbatim>\<open>write\<close> does not raise and
  sends one text frame. With \<^verbatim>\<open>binary\<close> supplied and \<^verbatim>\<open>text\<close> the byte 255, which is no
  UTF-8, \<^verbatim>\<open>write\<close> raises \<^verbatim>\<open>UnicodeDecodeError\<close> and sends no frame at all.
\<close>

theorem write_text_precedence_counterexample:
  "write_ws echo_env [''text'' \<mapsto> PBytes [255], ''binary'' \<mapsto> PBytes [1, 2]] connected_client =
     (Inl UnicodeDecodeError, connected_client)"
  by (simp add: write_ws_def supplied_def echo_env_def sample_decode_def)

text \<open>
  Claim C6, as the code has it. \<^verbatim>\<open>read\<close> makes exactly one \<^verbatim>\<open>recv\<close> call, and raises
  what that call raises. When the call returns a payload, \<^verbatim>\<open>read\<close> returns what
  \<^verbatim>\<open>json.loads\<close> makes of it, and the payload itself, unchanged, when \<^verbatim>\<open>json.loads\<close>
  raises \<^verbatim>\<open>JSONDecodeError\<close>. An exception of any other class that \<^verbatim>\<open>json.loads\<close> raises
  is not caught: \<^verbatim>\<open>read\<close> raises it. So with a decoder that reads \<^verbatim>\<open>{"a":1}\<close> as the
  dictionary \<^verbatim>\<open>{"a": 1}\<close> and rejects \<^verbatim>\<open>not-json\<close>, these two payloads give the
  dictionary and the string \<^verbatim>\<open>"not-json"\<close>.
\<close>

theorem read_json_or_raw:
  \<open>io (snd (read env w)) = io w @ [ERecv]
   \<and> (\<forall>e. fault env (length (io w)) = Some e \<longrightarrow>
        read env w = (Inl e, w\<lparr>io := io w @ [ERecv]\<rparr>))
   \<and> (fault env (length (io w)) = None \<longrightarrow>
        (\<forall>v. json_loads env (data_in env (length (io w))) = Inr v \<longrightarrow>
           read env w = (Inr v, w\<lparr>io := io w @ [ERecv]\<rparr>))
        \<and> (json_loads env (data_in env (length (io w))) = Inl JSONDecodeError \<longrightarrow>
           read env w = (Inr (data_in env (length (io w))), w\<lparr>io := io w @ [ERecv]\<rparr>))
        \<and> (\<forall>e. json_loads env (data_in env (length (io w))) = Inl e \<and> e \<noteq> JSONDecodeError \<longrightarrow>
           read env w = (Inl e, w\<lparr>io := io w @ [ERecv]\<rparr>))
        \<and> (data_in env (length (io w)) = PStr ''{"a":1}''
             \<and> json_loads env (PStr ''{"a":1}'') = Inr (PDict [(PStr ''a'', PInt 1)]) \<longrightarrow>
           fst (read env w) = Inr (PDict [(PStr ''a'', PInt 1)]))
        \<and> (data_in env (length (io w)) = PStr ''not-json''
             \<and> json_loads env (PStr ''not-json'') = Inl JSONDecodeError \<longrightarrow>
           fst (read env w) = Inr (PStr ''not-json'')))\<close>
  by (simp add: read_def client_recv_def call_def split: option.splits sum.splits)

theorem read_json_or_raw_witness:
  \<open>read echo_env connected_client =
     (Inr (PDict [(PStr ''a'', PInt 1)]), connected_client\<lparr>io := [ERecv]\<rparr>)
   \<and> read silent_env connected_client =
     (Inr (PStr ''not-json''), connected_client\<lparr>io := [ERecv]\<rparr>)
   \<and> read refusing_env connected_client =
     (Inl (LibraryError ''connection refused''), connected_client\<lparr>io := [ERecv]\<rparr>)\<close>
  using read_json_or_raw [of echo_env connected_client]
    read_json_or_raw [of silent_env connected_client]
    read_json_or_raw [of refusing_env connected_client]
  by (simp add: echo_env_def silent_env_def refusing_env_def sample_json_loads_def
        connected_client_def init_client_def)

text \<open>
  The claim as the specification words it promises the raw payload whenever the
  decoding fails. A binary frame with the one byte 255 is no UTF-8: \<^verbatim>\<open>json.loads\<close>
  raises \<^verbatim>\<open>UnicodeDecodeError\<close> on it, and so does \<^verbatim>\<open>read\<close>.
\<close>

theorem read_json_or_raw_counterexample:
  "read binary_env connected_client =
     (Inl UnicodeDecodeError, connected_client\<lparr>io := [ERecv]\<rparr>)"
  by (simp add: read_def client_recv_def call_def binary_env_def echo_env_def
        connected_client_def init_client_def)

section \<open>Properties of \<^verbatim>\<open>close_connection\<close>\<close>

lemma recv_frame_eq:
  "client_recv_frame env w =
     (case fault env (length (io w)) of Some e \<Rightarrow> Inl e | None \<Rightarrow> Inr (frame_in env (length (io w))),
      w\<lparr>io := io w @ [ERecvFrame]\<rparr>)"
  by (simp add: client_recv_frame_def call_def split: option.splits)

text \<open>One round of the receive loop, for each way it can go.\<close>

lemma close_wait_expired:
  "timeout = Some t \<Longrightarrow> \<not> time_at env (length (io w)) - start < t \<Longrightarrow>
   close_wait env timeout start rs w = Some (rs, w\<lparr>io := io w @ [ETime]\<rparr>)"
  by (subst close_wait.simps) (simp add: time_time_def)

lemma close_wait_raises:
  "time_at env (length (io w)) - start < t \<Longrightarrow>
   fault env (Suc (length (io w))) = Some e \<Longrightarrow>
   close_wait env (Some t) start rs w = Some (rs, w\<lparr>io := io w @ [ETime, ERecvFrame]\<rparr>)"
  by (subst close_wait.simps) (simp add: time_time_def recv_frame_eq)

lemma close_wait_close_frame:
  "time_at env (length (io w)) - start < t \<Longrightarrow>
   fault env (Suc (length (io w))) = None \<Longrightarrow>
   frame_opcode (frame_in env (Suc (length (io w)))) = OPCODE_CLOSE \<Longrightarrow>
   close_wait env (Some t) start rs w =
     (let w2 = w\<lparr>io := io w @ [ETime, ERecvFrame]\<rparr> in
      if enabled_for_error env then
        (case unpack_H (take 2 (frame_data (frame_in env (Suc (length (io w)))))) of
           Inl e \<Rightarrow> Some (rs, w2)
         | Inr s \<Rightarrow> Some (s, w2\<lparr>logs := logs w2 @
             (if 3000 \<le> s \<and> s \<le> 4999 then [(DEBUG, s)]
              else if s \<noteq> STATUS_NORMAL then [(ERROR, s)] else [])\<rparr>))
      else Some (rs, w2))"
  by (subst close_wait.simps) (simp add: time_time_def recv_frame_eq Let_def split: sum.splits)

lemma close_wait_other_frame:
  "time_at env (length (io w)) - start < t \<Longrightarrow>
   fault env (Suc (length (io w))) = None \<Longrightarrow>
   frame_opcode (frame_in env (Suc (length (io w)))) \<noteq> OPCODE_CLOSE \<Longrightarrow>
   close_wait env (Some t) start rs w =
     close_wait env (Some t) start rs (w\<lparr>io := io w @ [ETime, ERecvFrame]\<rparr>)"
  by (subst close_wait.simps) (simp add: time_time_def recv_frame_eq)

text \<open>The loop touches neither the connection flag nor the socket's settings.\<close>

lemma close_wait_keeps:
  assumes "close_wait env timeout start rs w = Some y"
  shows "client_connected (snd y) = client_connected w
       \<and> client_sock_open (snd y) = client_sock_open w
       \<and> client_sock_timeout (snd y) = client_sock_timeout w"
proof (rule close_wait.raw_induct [where P = "\<lambda>env timeout start rs w y.
         client_connected (snd y) = client_connected w
       \<and> client_sock_open (snd y) = client_sock_open w
       \<and> client_sock_timeout (snd y) = client_sock_timeout w", OF _ assms], goal_cases)
  case (1 cw env timeout start rs w y)
  from 1(2) show ?case
    by (auto simp add: time_time_def recv_frame_eq
          split: if_splits sum.splits option.splits dest!: 1(1))
qed

lemma close_try_disconnects:
  assumes "close_try env cs timeout rs w = Some (r, w')"
  shows "\<not> client_connected w'"
  using assms
  by (auto simp add: close_try_def Let_def client_send_eq sock_gettimeout_def
        sock_settimeout_def sock_shutdown_def call_def time_time_def
        split: sum.splits option.splits if_splits prod.splits dest!: close_wait_keeps)

lemma close_connection_disconnects:
  assumes "close_connection env cs timeout w = Some (Inr r, w')"
  shows "\<not> client_connected w'"
  using assms
  by (auto simp add: close_connection_def Let_def client_shutdown_def
        split: if_splits option.splits prod.splits dest: close_try_disconnects)

text \<open>
  A run of the model: closing the connected handle with status 1000 against the peer
  that echoes the close frame. The trace shows the whole handshake.
\<close>

lemma close_echo_run:
  "close_connection echo_env (PInt 1000) (Some 3) connected_client =
     Some (Inr 1000, closed_client)"
proof -
  let ?w4 = "connected_client\<lparr>client_connected := False,
      io := [ESend (PBytes [3, 232]) 8, EGetTimeout, ESetTimeout (Some 3), ETime],
      client_sock_timeout := Some 3\<rparr>"
  have loop: "close_wait echo_env (Some 3) (3 / 10) STATUS_ABNORMAL_CLOSED ?w4 =
      Some (1000, ?w4\<lparr>io := io ?w4 @ [ETime, ERecvFrame]\<rparr>)"
    by (subst close_wait_close_frame)
       (simp_all add: echo_env_def connected_client_def init_client_def OPCODE_CLOSE_def
          STATUS_NORMAL_def Let_def)
  show ?thesis
    using loop
    by (simp add: close_connection_def close_try_def client_send_eq sock_gettimeout_def
          sock_settimeout_def sock_shutdown_def client_shutdown_def call_def time_time_def
          Let_def LENGTH_16_def OPCODE_CLOSE_def STATUS_ABNORMAL_CLOSED_def
          echo_env_def connected_client_def init_client_def closed_client_def)
qed

text \<open>
  Claim C2. On a handle that is not connected, \<^verbatim>\<open>close_connection\<close> returns the
  abnormal-closure status and changes nothing but \<^verbatim>\<open>self.status_code\<close>: no call reaches
  the transport. A close that returned leaves the handle not connected, so a second
  close is of that kind, whatever its arguments.
\<close>

theorem close_disconnected_no_io:
  "(\<not> client_connected w \<longrightarrow>
      close_connection env cs t w =
        Some (Inr STATUS_ABNORMAL_CLOSED, w\<lparr>self_status_code := Some STATUS_ABNORMAL_CLOSED\<rparr>)
      \<and> io (w\<lparr>self_status_code := Some STATUS_ABNORMAL_CLOSED\<rparr>) = io w)
   \<and> (close_connection env cs t w = Some (Inr r, w1) \<longrightarrow>
      close_connection env cs2 t2 w1 =
        Some (Inr STATUS_ABNORMAL_CLOSED, w1\<lparr>self_status_code := Some STATUS_ABNORMAL_CLOSED\<rparr>))"
proof -
  have first: "\<not> client_connected w' \<Longrightarrow>
      close_connection env' cs' t' w' =
        Some (Inr STATUS_ABNORMAL_CLOSED, w'\<lparr>self_status_code := Some STATUS_ABNORMAL_CLOSED\<rparr>)"
    for env' cs' t' w'
    by (simp add: close_connection_def)
  show ?thesis
    using first close_connection_disconnects by auto
qed

theorem close_disconnected_no_io_witness:
  "close_connection echo_env (PInt 1000) (Some 3) init_client =
     Some (Inr 1006, init_client\<lparr>self_status_code := Some 1006\<rparr>)
   \<and> close_connection echo_env (PInt 1000) (Some 3) connected_client = Some (Inr 1000, closed_client)
   \<and> close_connection echo_env (PInt 1000) (Some 3) closed_client =
       Some (Inr 1006, closed_client\<lparr>self_status_code := Some 1006\<rparr>)
   \<and> io (closed_client\<lparr>self_status_code := Some 1006\<rparr>) = io closed_client"
  using close_disconnected_no_io [where w = init_client and env = echo_env and cs = "PInt 1000"
      and t = "Some 3"]
    close_disconnected_no_io [where w = connected_client and env = echo_env and cs = "PInt 1000"
      and t = "Some 3" and r = 1000 and ?w1.0 = closed_client and ?cs2.0 = "PInt 1000"
      and ?t2.0 = "Some 3"]
    close_echo_run
  by (simp add: init_client_def STATUS_ABNORMAL_CLOSED_def)

text \<open>
  Claim C1, as the code has it. A status in \<open>[0, 65536)\<close> never makes
  \<^verbatim>\<open>close_connection\<close> raise. A status outside that range makes it raise \<^verbatim>\<open>ValueError\<close>
  before any call to the transport when the handle is connected; on a handle that is
  not connected the status is not looked at, and the call returns the abnormal-closure
  status.
\<close>

theorem close_status_range:
  "(0 \<le> n \<and> n < 65536 \<longrightarrow> (\<forall>e w'. close_connection env (PInt n) t w \<noteq> Some (Inl e, w')))
   \<and> (client_connected w \<and> (n < 0 \<or> 65536 \<le> n) \<longrightarrow>
        close_connection env (PInt n) t w = Some (Inl (ValueError ''code is invalid range''), w))
   \<and> (\<not> client_connected w \<longrightarrow>
        close_connection env (PInt n) t w =
          Some (Inr STATUS_ABNORMAL_CLOSED, w\<lparr>self_status_code := Some STATUS_ABNORMAL_CLOSED\<rparr>))"
  by (auto simp add: close_connection_def LENGTH_16_def Let_def split: option.splits)

theorem close_status_range_witness:
  "close_connection echo_env (PInt 1000) (Some 3) connected_client \<noteq>
     Some (Inl (ValueError ''code is invalid range''), connected_client)
   \<and> close_connection echo_env (PInt 65536) (Some 3) connected_client =
       Some (Inl (ValueError ''code is invalid range''), connected_client)
   \<and> close_connection echo_env (PInt (- 1)) (Some 3) init_client =
       Some (Inr 1006, init_client\<lparr>self_status_code := Some 1006\<rparr>)"
  using close_status_range [where n = 1000 and env = echo_env and t = "Some 3" and w = connected_client]
    close_status_range [where n = 65536 and env = echo_env and t = "Some 3" and w = connected_client]
    close_status_range [where n = "- 1" and env = echo_env and t = "Some 3" and w = init_client]
  by (simp add: connected_client_def init_client_def STATUS_ABNORMAL_CLOSED_def)

text \<open>
  The claim as the specification words it asks for the \<^verbatim>\<open>ValueError\<close> on a handle that is
  not connected as well. There the out-of-range status 65536 is accepted.
\<close>

theorem close_status_range_counterexample:
  "close_connection echo_env (PInt 65536) (Some 3) init_client =
     Some (Inr STATUS_ABNORMAL_CLOSED, init_client\<lparr>self_status_code := Some STATUS_ABNORMAL_CLOSED\<rparr>)"
  by (simp add: close_connection_def init_client_def)

text \<open>Rounds that receive a frame other than a close frame change nothing but the trace.\<close>

lemma length_rounds: "length (concat (replicate k [ETime, ERecvFrame])) = 2 * k"
  by (induction k) simp_all

lemma close_wait_skip:
  "(\<forall>i<k. time_at env (length (io w) + 2 * i) - start < t
          \<and> fault env (length (io w) + 2 * i + 1) = None
          \<and> frame_opcode (frame_in env (length (io w) + 2 * i + 1)) \<noteq> OPCODE_CLOSE) \<Longrightarrow>
   close_wait env (Some t) start rs w =
   close_wait env (Some t) start rs (w\<lparr>io := io w @ concat (replicate k [ETime, ERecvFrame])\<rparr>)"
proof (induction k arbitrary: w)
  case 0
  then show ?case by simp
next
  case (Suc k)
  let ?w2 = "w\<lparr>io := io w @ [ETime, ERecvFrame]\<rparr>"
  have zero: "(0::nat) < Suc k" by simp
  from Suc.prems [rule_format, OF zero] have first:
    "time_at env (length (io w)) - start < t"
    "fault env (Suc (length (io w))) = None"
    "frame_opcode (frame_in env (Suc (length (io w)))) \<noteq> OPCODE_CLOSE"
    by simp_all
  have step: "close_wait env (Some t) start rs w = close_wait env (Some t) start rs ?w2"
    using first by (rule close_wait_other_frame)
  have rest: "\<forall>i<k. time_at env (length (io ?w2) + 2 * i) - start < t
          \<and> fault env (length (io ?w2) + 2 * i + 1) = None
          \<and> frame_opcode (frame_in env (length (io ?w2) + 2 * i + 1)) \<noteq> OPCODE_CLOSE"
  proof (intro allI impI)
    fix i assume "i < k"
    then have "Suc i < Suc k" by simp
    with Suc.prems have
      "time_at env (length (io w) + 2 * Suc i) - start < t
          \<and> fault env (length (io w) + 2 * Suc i + 1) = None
          \<and> frame_opcode (frame_in env (length (io w) + 2 * Suc i + 1)) \<noteq> OPCODE_CLOSE"
      by blast
    then show "time_at env (length (io ?w2) + 2 * i) - start < t
          \<and> fault env (length (io ?w2) + 2 * i + 1) = None
          \<and> frame_opcode (frame_in env (length (io ?w2) + 2 * i + 1)) \<noteq> OPCODE_CLOSE"
      by (simp add: add.commute add.left_commute)
  qed
  from Suc.IH [OF rest] step show ?case by simp
qed

text \<open>The statements of the \<^verbatim>\<open>try\<close> body up to the loop, when none of them raises.\<close>

lemma close_try_started:
  assumes "client_sock_open w" and "0 \<le> n" and "n < 65536"
    and "fault env (length (io w)) = None"
    and "fault env (length (io w) + 1) = None"
    and "fault env (length (io w) + 2) = None"
  shows "close_try env (PInt n) timeout rs w =
     (case close_wait env timeout (time_at env (length (io w) + 3)) rs
             (w\<lparr>client_connected := False, client_sock_timeout := timeout,
                io := io w @ [ESend (PBytes [word_of_int (n div 256), word_of_int (n mod 256)])
                                OPCODE_CLOSE, EGetTimeout, ESetTimeout timeout, ETime]\<rparr>) of
        None \<Rightarrow> None
      | Some (rs', w5) \<Rightarrow>
          (case sock_settimeout env (client_sock_timeout w) w5 of
             (Inl e, w6) \<Rightarrow> Some (rs', w6)
           | (Inr u, w6) \<Rightarrow> (case sock_shutdown env w6 of (r, w7) \<Rightarrow> Some (rs', w7))))"
  using assms
  by (simp add: close_try_def Let_def client_send_eq sock_gettimeout_def sock_settimeout_def
        call_def time_time_def numeral_3_eq_3 numeral_2_eq_2)

text \<open>What follows the loop leaves the logged lines alone and ends with the socket
  closed.\<close>

lemma close_finish:
  assumes "client_sock_open w5"
  shows "\<exists>w6 tail. (case sock_settimeout env orig w5 of
             (Inl e, w6) \<Rightarrow> Some (rs, w6)
           | (Inr u, w6) \<Rightarrow> (case sock_shutdown env w6 of (r, w7) \<Rightarrow> Some (rs, w7))) = Some (rs, w6)
       \<and> logs w6 = logs w5
       \<and> io w6 = io w5 @ ESetTimeout orig # tail
       \<and> client_sock_open w6
       \<and> (fault env (length (io w5)) = None \<longrightarrow> client_sock_timeout w6 = orig)"
proof (cases "fault env (length (io w5))")
  case None
  with assms show ?thesis
    by (simp add: sock_settimeout_def sock_shutdown_def call_def split: option.splits)
next
  case (Some e)
  with assms show ?thesis
    by (simp add: sock_settimeout_def call_def)
qed

text \<open>A close on a connected handle whose first three calls succeed, once the loop has
  ended: the status of the loop is returned, and the next call restores the timeout.\<close>

lemma close_connection_after_loop:
  assumes conn: "client_connected w" and sock: "client_sock_open w"
    and range: "0 \<le> n" "n < 65536"
    and pre: "fault env (length (io w)) = None" "fault env (length (io w) + 1) = None"
      "fault env (length (io w) + 2) = None"
    and loop: "close_wait env timeout (time_at env (length (io w) + 3)) STATUS_ABNORMAL_CLOSED
             (w\<lparr>client_connected := False, client_sock_timeout := timeout,
                io := io w @ [ESend (PBytes [word_of_int (n div 256), word_of_int (n mod 256)])
                                OPCODE_CLOSE, EGetTimeout, ESetTimeout timeout, ETime]\<rparr>)
           = Some (rs, w5)"
  shows "\<exists>w' tail. close_connection env (PInt n) timeout w = Some (Inr rs, w')
       \<and> self_status_code w' = Some rs
       \<and> logs w' = logs w5
       \<and> io w' = io w5 @ ESetTimeout (client_sock_timeout w) # tail
       \<and> (fault env (length (io w5)) = None \<longrightarrow> client_sock_timeout w' = client_sock_timeout w)"
proof -
  from close_wait_keeps [OF loop] sock have open5: "client_sock_open w5" by simp
  from close_finish [OF open5, where env = env and orig = "client_sock_timeout w" and rs = rs]
  obtain w6 tail where fin:
    "(case sock_settimeout env (client_sock_timeout w) w5 of
        (Inl e, w6) \<Rightarrow> Some (rs, w6)
      | (Inr u, w6) \<Rightarrow> (case sock_shutdown env w6 of (r, w7) \<Rightarrow> Some (rs, w7))) = Some (rs, w6)"
    "logs w6 = logs w5" "io w6 = io w5 @ ESetTimeout (client_sock_timeout w) # tail"
    "client_sock_open w6"
    "fault env (length (io w5)) = None \<longrightarrow> client_sock_timeout w6 = client_sock_timeout w"
    by auto
  have body: "close_try env (PInt n) timeout STATUS_ABNORMAL_CLOSED w = Some (rs, w6)"
    using close_try_started [OF sock range pre, where timeout = timeout
        and rs = STATUS_ABNORMAL_CLOSED] loop fin(1)
    by simp
  have "close_connection env (PInt n) timeout w =
      Some (Inr rs, (client_shutdown w6)\<lparr>self_status_code := Some rs\<rparr>)"
    using conn range body by (simp add: close_connection_def LENGTH_16_def Let_def)
  moreover have "io (client_shutdown w6) = io w5 @ ESetTimeout (client_sock_timeout w) # (tail @ [ESockClose])"
    using fin(3,4) by (simp add: client_shutdown_def)
  moreover have "logs (client_shutdown w6) = logs w5"
    "client_sock_timeout (client_shutdown w6) = client_sock_timeout w6"
    using fin(2) by (simp_all add: client_shutdown_def)
  ultimately show ?thesis using fin(5) by auto
qed

text \<open>
  Claim C9. On a connected handle whose close frame goes out and whose timeout is
  overridden without error, let \<open>k\<close> frames other than close frames arrive in time and
  then, still within the timeout \<open>t\<close>, the peer's close frame, whose payload starts with
  the two bytes \<open>hi\<close> and \<open>lo\<close> of the status \<open>s = 256 * hi + lo\<close>. The call does not
  raise. What it returns, and stores in \<^verbatim>\<open>self.status_code\<close>, depends on the logger of
  the \<^verbatim>\<open>websocket\<close> library: the assignment \<^verbatim>\<open>resp_status = recv_status\<close> stands under
  \<^verbatim>\<open>if isEnabledForError():\<close>. With the logger enabled for errors the result is the
  status \<open>s\<close> of the peer; a status from 3000 to 4999 is logged at debug level, any other
  status but 1000 at error level. With the logger disabled the frame is not decoded,
  nothing is logged, and the result is the abnormal-closure status 1006 whatever the
  peer sent: there the code departs from its specification, which promises the status of
  the peer.
\<close>

theorem close_returns_peer_status:
  assumes conn: "client_connected w" and sock: "client_sock_open w"
    and range: "0 \<le> n" "n < 65536"
    and pre: "fault env (length (io w)) = None" "fault env (length (io w) + 1) = None"
      "fault env (length (io w) + 2) = None"
    and skip: "\<forall>i<k. time_at env (length (io w) + 4 + 2 * i)
                             - time_at env (length (io w) + 3) < t
          \<and> fault env (length (io w) + 4 + 2 * i + 1) = None
          \<and> frame_opcode (frame_in env (length (io w) + 4 + 2 * i + 1)) \<noteq> OPCODE_CLOSE"
    and intime: "time_at env (length (io w) + 4 + 2 * k) - time_at env (length (io w) + 3) < t"
    and arrives: "fault env (length (io w) + 4 + 2 * k + 1) = None"
      "frame_opcode (frame_in env (length (io w) + 4 + 2 * k + 1)) = OPCODE_CLOSE"
      "frame_data (frame_in env (length (io w) + 4 + 2 * k + 1)) = hi # lo # rest"
    and s: "s = uint hi * 256 + uint lo"
    and r: "r = (if enabled_for_error env then s else STATUS_ABNORMAL_CLOSED)"
  shows "\<exists>w'. close_connection env (PInt n) (Some t) w = Some (Inr r, w')
       \<and> self_status_code w' = Some r
       \<and> logs w' = logs w @
            (if enabled_for_error env then
               (if 3000 \<le> s \<and> s \<le> 4999 then [(DEBUG, s)]
                else if s \<noteq> STATUS_NORMAL then [(ERROR, s)] else [])
             else [])"
proof -
  let ?start = "time_at env (length (io w) + 3)"
  let ?w4 = "w\<lparr>client_connected := False, client_sock_timeout := Some t,
                io := io w @ [ESend (PBytes [word_of_int (n div 256), word_of_int (n mod 256)])
                                OPCODE_CLOSE, EGetTimeout, ESetTimeout (Some t), ETime]\<rparr>"
  let ?w5 = "?w4\<lparr>io := io ?w4 @ concat (replicate k [ETime, ERecvFrame])\<rparr>"
  let ?entry = "if enabled_for_error env then
               (if 3000 \<le> s \<and> s \<le> 4999 then [(DEBUG, s)]
                else if s \<noteq> STATUS_NORMAL then [(ERROR, s)] else [])
             else []"
  have len4: "length (io ?w4) = length (io w) + 4" by simp
  have len5: "length (io ?w5) = length (io w) + 4 + 2 * k" by (simp add: length_rounds)
  have skipped: "close_wait env (Some t) ?start STATUS_ABNORMAL_CLOSED ?w4 =
      close_wait env (Some t) ?start STATUS_ABNORMAL_CLOSED ?w5"
    by (rule close_wait_skip) (use skip in \<open>simp only: len4\<close>)
  have got: "close_wait env (Some t) ?start STATUS_ABNORMAL_CLOSED ?w5 =
      Some (r, ?w5\<lparr>io := io ?w5 @ [ETime, ERecvFrame], logs := logs ?w5 @ ?entry\<rparr>)"
  proof (subst close_wait_close_frame)
    show "time_at env (length (io ?w5)) - ?start < t"
      using intime by (simp only: len5)
    show "fault env (Suc (length (io ?w5))) = None"
      using arrives(1) by (simp only: len5 Suc_eq_plus1)
    show "frame_opcode (frame_in env (Suc (length (io ?w5)))) = OPCODE_CLOSE"
      using arrives(2) by (simp only: len5 Suc_eq_plus1)
    have data: "frame_data (frame_in env (Suc (length (io ?w5)))) = hi # lo # rest"
      using arrives(3) by (simp only: len5 Suc_eq_plus1)
    show "(let w2 = ?w5\<lparr>io := io ?w5 @ [ETime, ERecvFrame]\<rparr> in
      if enabled_for_error env then
        (case unpack_H (take 2 (frame_data (frame_in env (Suc (length (io ?w5)))))) of
           Inl e \<Rightarrow> Some (STATUS_ABNORMAL_CLOSED, w2)
         | Inr s \<Rightarrow> Some (s, w2\<lparr>logs := logs w2 @
             (if 3000 \<le> s \<and> s \<le> 4999 then [(DEBUG, s)]
              else if s \<noteq> STATUS_NORMAL then [(ERROR, s)] else [])\<rparr>))
      else Some (STATUS_ABNORMAL_CLOSED, w2)) =
      Some (r, ?w5\<lparr>io := io ?w5 @ [ETime, ERecvFrame], logs := logs ?w5 @ ?entry\<rparr>)"
      unfolding data using s r by (simp add: Let_def)
  qed
  from close_connection_after_loop [OF conn sock range pre, where timeout = "Some t",
      OF trans [OF skipped got]]
  show ?thesis by auto
qed

theorem close_returns_peer_status_witness:
  "(\<exists>w'. close_connection echo_env (PInt 1000) (Some 3) connected_client = Some (Inr 1000, w')
       \<and> self_status_code w' = Some 1000 \<and> logs w' = [])
   \<and> (\<exists>w'. close_connection unlogged_env (PInt 1000) (Some 3) connected_client
              = Some (Inr 1006, w')
       \<and> self_status_code w' = Some 1006 \<and> logs w' = [])"
proof -
  have start: "client_connected connected_client" "client_sock_open connected_client"
    "io connected_client = []" "logs connected_client = []"
    by (simp_all add: connected_client_def init_client_def)
  have script: "fault echo_env = (\<lambda>n. None)" "enabled_for_error echo_env"
    "frame_in echo_env = (\<lambda>n. \<lparr>frame_opcode = 8, frame_data = [3, 232]\<rparr>)"
    "time_at echo_env = (\<lambda>n. of_nat n / 10)"
    by (simp_all add: echo_env_def)
  have script': "fault unlogged_env = (\<lambda>n. None)" "\<not> enabled_for_error unlogged_env"
    "frame_in unlogged_env = (\<lambda>n. \<lparr>frame_opcode = 8, frame_data = [3, 232]\<rparr>)"
    "time_at unlogged_env = (\<lambda>n. of_nat n / 10)"
    by (simp_all add: unlogged_env_def echo_env_def)
  have "\<exists>w'. close_connection echo_env (PInt 1000) (Some 3) connected_client = Some (Inr 1000, w')
       \<and> self_status_code w' = Some 1000
       \<and> logs w' = logs connected_client @
            (if enabled_for_error echo_env then
               (if 3000 \<le> (1000::int) \<and> (1000::int) \<le> 4999 then [(DEBUG, 1000)]
                else if 1000 \<noteq> STATUS_NORMAL then [(ERROR, 1000)] else [])
             else [])"
    by (rule close_returns_peer_status [where k = 0 and hi = 3 and lo = 232 and rest = "[]"
          and s = 1000])
       (simp_all add: start script OPCODE_CLOSE_def)
  then have logged: "\<exists>w'. close_connection echo_env (PInt 1000) (Some 3) connected_client
        = Some (Inr 1000, w') \<and> self_status_code w' = Some 1000 \<and> logs w' = []"
    by (simp add: start script STATUS_NORMAL_def)
  have "\<exists>w'. close_connection unlogged_env (PInt 1000) (Some 3) connected_client
        = Some (Inr 1006, w')
       \<and> self_status_code w' = Some 1006
       \<and> logs w' = logs connected_client @
            (if enabled_for_error unlogged_env then
               (if 3000 \<le> (1000::int) \<and> (1000::int) \<le> 4999 then [(DEBUG, 1000)]
                else if 1000 \<noteq> STATUS_NORMAL then [(ERROR, 1000)] else [])
             else [])"
    by (rule close_returns_peer_status [where k = 0 and hi = 3 and lo = 232 and rest = "[]"
          and s = 1000])
       (simp_all add: start script' OPCODE_CLOSE_def STATUS_ABNORMAL_CLOSED_def)
  then have unlogged: "\<exists>w'. close_connection unlogged_env (PInt 1000) (Some 3) connected_client
        = Some (Inr 1006, w') \<and> self_status_code w' = Some 1006 \<and> logs w' = []"
    by (simp add: start script')
  from logged unlogged show ?thesis by blast
qed

text \<open>
  The specification promises the status of the peer. With the logger of the library
  disabled for errors the peer's close frame with status 1000 arrives in time, and the
  call returns 1006.
\<close>

theorem close_returns_peer_status_counterexample:
  "close_connection unlogged_env (PInt 1000) (Some 3) connected_client =
     Some (Inr 1006, closed_client\<lparr>self_status_code := Some 1006\<rparr>)"
proof -
  let ?w4 = "connected_client\<lparr>client_connected := False,
      io := [ESend (PBytes [3, 232]) 8, EGetTimeout, ESetTimeout (Some 3), ETime],
      client_sock_timeout := Some 3\<rparr>"
  have loop: "close_wait unlogged_env (Some 3) (3 / 10) STATUS_ABNORMAL_CLOSED ?w4 =
      Some (STATUS_ABNORMAL_CLOSED, ?w4\<lparr>io := io ?w4 @ [ETime, ERecvFrame]\<rparr>)"
    by (subst close_wait_close_frame)
       (simp_all add: unlogged_env_def echo_env_def connected_client_def init_client_def
          OPCODE_CLOSE_def Let_def)
  show ?thesis
    using loop
    by (simp add: close_connection_def close_try_def client_send_eq sock_gettimeout_def
          sock_settimeout_def sock_shutdown_def client_shutdown_def call_def time_time_def
          Let_def LENGTH_16_def OPCODE_CLOSE_def STATUS_ABNORMAL_CLOSED_def
          unlogged_env_def echo_env_def connected_client_def init_client_def closed_client_def)
qed

text \<open>
  Claim C8. On a connected handle whose close frame goes out and whose timeout is
  overridden without error, let no close frame arrive: \<open>k\<close> other frames come in time,
  and then either the clock shows that the timeout \<open>t\<close> of the caller has elapsed or
  \<^verbatim>\<open>recv_frame()\<close> raises (the socket timed out). Then \<^verbatim>\<open>close_connection\<close> returns the
  abnormal-closure status. The trace shows the override \<^verbatim>\<open>settimeout(t)\<close> before the
  loop and, as the first call after the loop, \<^verbatim>\<open>settimeout\<close> with the value the socket
  had before the call; when that call succeeds the socket's timeout is that value again.
\<close>

theorem close_timeout_restores:
  assumes conn: "client_connected w" and sock: "client_sock_open w"
    and range: "0 \<le> n" "n < 65536"
    and pre: "fault env (length (io w)) = None" "fault env (length (io w) + 1) = None"
      "fault env (length (io w) + 2) = None"
    and skip: "\<forall>i<k. time_at env (length (io w) + 4 + 2 * i) - time_at env (length (io w) + 3) < t
          \<and> fault env (length (io w) + 4 + 2 * i + 1) = None
          \<and> frame_opcode (frame_in env (length (io w) + 4 + 2 * i + 1)) \<noteq> OPCODE_CLOSE"
    and quiet: "\<not> time_at env (length (io w) + 4 + 2 * k) - time_at env (length (io w) + 3) < t
          \<or> fault env (length (io w) + 4 + 2 * k + 1) \<noteq> None"
    and last: "last_round =
          (if time_at env (length (io w) + 4 + 2 * k) - time_at env (length (io w) + 3) < t
           then [ETime, ERecvFrame] else [ETime])"
  shows "\<exists>w' tail. close_connection env (PInt n) (Some t) w = Some (Inr STATUS_ABNORMAL_CLOSED, w')
       \<and> io w' = io w @ [ESend (PBytes [word_of_int (n div 256), word_of_int (n mod 256)])
                            OPCODE_CLOSE, EGetTimeout, ESetTimeout (Some t), ETime]
                    @ concat (replicate k [ETime, ERecvFrame]) @ last_round
                    @ ESetTimeout (client_sock_timeout w) # tail
       \<and> (fault env (length (io w) + 4 + 2 * k + length last_round) = None \<longrightarrow>
            client_sock_timeout w' = client_sock_timeout w)"
proof -
  let ?start = "time_at env (length (io w) + 3)"
  let ?w4 = "w\<lparr>client_connected := False, client_sock_timeout := Some t,
                io := io w @ [ESend (PBytes [word_of_int (n div 256), word_of_int (n mod 256)])
                                OPCODE_CLOSE, EGetTimeout, ESetTimeout (Some t), ETime]\<rparr>"
  let ?w5 = "?w4\<lparr>io := io ?w4 @ concat (replicate k [ETime, ERecvFrame])\<rparr>"
  have len4: "length (io ?w4) = length (io w) + 4" by simp
  have len5: "length (io ?w5) = length (io w) + 4 + 2 * k" by (simp add: length_rounds)
  have skipped: "close_wait env (Some t) ?start STATUS_ABNORMAL_CLOSED ?w4 =
      close_wait env (Some t) ?start STATUS_ABNORMAL_CLOSED ?w5"
    by (rule close_wait_skip) (use skip in \<open>simp only: len4\<close>)
  have left: "close_wait env (Some t) ?start STATUS_ABNORMAL_CLOSED ?w5 =
      Some (STATUS_ABNORMAL_CLOSED, ?w5\<lparr>io := io ?w5 @ last_round\<rparr>)"
  proof (cases "time_at env (length (io w) + 4 + 2 * k) - ?start < t")
    case True
    with quiet obtain e where e: "fault env (length (io w) + 4 + 2 * k + 1) = Some e" by auto
    have "close_wait env (Some t) ?start STATUS_ABNORMAL_CLOSED ?w5 =
        Some (STATUS_ABNORMAL_CLOSED, ?w5\<lparr>io := io ?w5 @ [ETime, ERecvFrame]\<rparr>)"
    proof (rule close_wait_raises)
      show "time_at env (length (io ?w5)) - ?start < t"
        using True by (simp only: len5)
      show "fault env (Suc (length (io ?w5))) = Some e"
        using e by (simp only: len5 Suc_eq_plus1)
    qed
    with True last show ?thesis by simp
  next
    case False
    have "close_wait env (Some t) ?start STATUS_ABNORMAL_CLOSED ?w5 =
        Some (STATUS_ABNORMAL_CLOSED, ?w5\<lparr>io := io ?w5 @ [ETime]\<rparr>)"
    proof (rule close_wait_expired [where t = t])
      show "Some t = Some t" by simp
      show "\<not> time_at env (length (io ?w5)) - ?start < t"
        unfolding len5 by (rule False)
    qed
    with False last show ?thesis by simp
  qed
  have len6: "length (io (?w5\<lparr>io := io ?w5 @ last_round\<rparr>)) =
      length (io w) + 4 + 2 * k + length last_round"
    by (simp add: length_rounds)
  from close_connection_after_loop [OF conn sock range pre, where timeout = "Some t",
      OF trans [OF skipped left]]
  show ?thesis unfolding len6 by auto
qed

theorem close_timeout_restores_witness:
  "(\<exists>w' tail. close_connection silent_env (PInt 1000) (Some 2) connected_client = Some (Inr 1006, w')
       \<and> io w' = [ESend (PBytes [3, 232]) 8, EGetTimeout, ESetTimeout (Some 2), ETime,
                    ETime, ERecvFrame, ETime, ESetTimeout (Some 7)] @ tail
       \<and> client_sock_timeout w' = Some 7)
   \<and> (\<exists>w' tail. close_connection timeout_env (PInt 1000) (Some 2) connected_client = Some (Inr 1006, w')
       \<and> io w' = [ESend (PBytes [3, 232]) 8, EGetTimeout, ESetTimeout (Some 2), ETime,
                    ETime, ERecvFrame, ESetTimeout (Some 7)] @ tail
       \<and> client_sock_timeout w' = Some 7)"
proof -
  have start: "client_connected connected_client" "client_sock_open connected_client"
    "io connected_client = []" "client_sock_timeout connected_client = Some 7"
    by (simp_all add: connected_client_def init_client_def)
  have silent: "fault silent_env = (\<lambda>n. None)" "time_at silent_env = (\<lambda>n. of_nat n)"
    "frame_in silent_env = (\<lambda>n. \<lparr>frame_opcode = 9, frame_data = []\<rparr>)"
    by (simp_all add: silent_env_def echo_env_def)
  have timed: "fault timeout_env = (\<lambda>n. if n = 5 then Some (LibraryError ''timed out'') else None)"
    "time_at timeout_env = (\<lambda>n. of_nat n)"
    by (simp_all add: timeout_env_def silent_env_def echo_env_def)
  have expiry: "\<exists>w' tail. close_connection silent_env (PInt 1000) (Some 2) connected_client =
          Some (Inr STATUS_ABNORMAL_CLOSED, w')
       \<and> io w' = io connected_client
            @ [ESend (PBytes [word_of_int (1000 div 256), word_of_int (1000 mod 256)])
                 OPCODE_CLOSE, EGetTimeout, ESetTimeout (Some 2), ETime]
            @ concat (replicate 1 [ETime, ERecvFrame]) @ [ETime]
            @ ESetTimeout (client_sock_timeout connected_client) # tail
       \<and> (fault silent_env (length (io connected_client) + 4 + 2 * 1 + length [ETime]) = None \<longrightarrow>
            client_sock_timeout w' = client_sock_timeout connected_client)"
    by (rule close_timeout_restores) (simp_all add: start silent OPCODE_CLOSE_def)
  have raised: "\<exists>w' tail. close_connection timeout_env (PInt 1000) (Some 2) connected_client =
          Some (Inr STATUS_ABNORMAL_CLOSED, w')
       \<and> io w' = io connected_client
            @ [ESend (PBytes [word_of_int (1000 div 256), word_of_int (1000 mod 256)])
                 OPCODE_CLOSE, EGetTimeout, ESetTimeout (Some 2), ETime]
            @ concat (replicate 0 [ETime, ERecvFrame]) @ [ETime, ERecvFrame]
            @ ESetTimeout (client_sock_timeout connected_client) # tail
       \<and> (fault timeout_env (length (io connected_client) + 4 + 2 * 0 + length [ETime, ERecvFrame])
              = None \<longrightarrow>
            client_sock_timeout w' = client_sock_timeout connected_client)"
    by (rule close_timeout_restores) (simp_all add: start timed)
  from expiry raised show ?thesis
    by (simp add: start silent timed OPCODE_CLOSE_def STATUS_ABNORMAL_CLOSED_def)
qed

section \<open>Properties of the orchestrator\<close>





text \<open>The run up to the call of \<^verbatim>\<open>send_request\<close>, when every earlier phase succeeds.\<close>

lemma run_step_until_request:
  assumes vars: "parse_variables coll (step_variables step) = Inr vars"
    and parsed: "parse_data coll (step_websocket_request step) vars = Inr parsed"
    and d: "d = parsed\<lparr>req_headers :=
                  resolve_headers (case_id rn) (now coll 1) (req_headers parsed)\<rparr>"
    and client: "(case websocket_client rn of
                    Some c \<Rightarrow> Inr c
                  | None \<Rightarrow> if websocket_ready coll then Inr init_client else Inl SystemExit)
                 = Inr client"
    and hooks: "(if step_setup_hooks step \<noteq> []
                 then call_hooks coll (step_setup_hooks step) vars d client else Inr vars)
                = Inr vars'"
    and url: "build_url coll (base_url rn) (req_url d) = Inr url"
  shows "run_step_websocket_request coll env rn step =
     (case send_request env (req_type d) url (request_options d) client of
        None \<Rightarrow> None
      | Some (Inl e, client') \<Rightarrow> Some (Inl e, rn\<lparr>websocket_client := Some client'\<rparr>)
      | Some (Inr u, client') \<Rightarrow>
          Some (after_request coll step (now coll 0) vars' d client'
                  (rn\<lparr>websocket_client := Some client'\<rparr>)
                  \<lparr>res_name = step_name step, res_step_type = ''websocket request'',
                   res_success = False, res_content_size = 0, res_export_vars = None,
                   res_failure_info = None, res_data = None, res_elapsed = None\<rparr>))"
proof (cases "step_setup_hooks step = []")
  case True
  with hooks have same: "vars' = vars" by simp
  show ?thesis
    using vars parsed client url True unfolding d same
    by (simp add: run_step_websocket_request_def Let_def
          split: option.splits prod.splits sum.splits)
next
  case False
  with hooks have called: "call_hooks coll (step_setup_hooks step) vars d client = Inr vars'"
    by simp
  show ?thesis
    using vars parsed client url False called unfolding d
    by (simp add: run_step_websocket_request_def Let_def
          split: option.splits prod.splits sum.splits)
qed

text \<open>
  Claim C3, as the code has it. The call of \<^verbatim>\<open>send_request\<close> stands outside every
  \<^verbatim>\<open>try\<close> of \<^verbatim>\<open>run_step_websocket_request\<close>. When the phases before it succeed and
  the request raises an exception, be it the transport's error in open, ping, write or
  read, that exception leaves \<^verbatim>\<open>run_step_websocket_request\<close>: no \<^verbatim>\<open>StepResult\<close> is
  returned. The runner keeps the client in the state the failed request left it in.
\<close>

theorem request_error_propagates:
  assumes vars: "parse_variables coll (step_variables step) = Inr vars"
    and parsed: "parse_data coll (step_websocket_request step) vars = Inr parsed"
    and d: "d = parsed\<lparr>req_headers :=
                  resolve_headers (case_id rn) (now coll 1) (req_headers parsed)\<rparr>"
    and client: "(case websocket_client rn of
                    Some c \<Rightarrow> Inr c
                  | None \<Rightarrow> if websocket_ready coll then Inr init_client else Inl SystemExit)
                 = Inr client"
    and hooks: "(if step_setup_hooks step \<noteq> []
                 then call_hooks coll (step_setup_hooks step) vars d client else Inr vars)
                = Inr vars'"
    and url: "build_url coll (base_url rn) (req_url d) = Inr url"
    and fails: "send_request env (req_type d) url (request_options d) client
                = Some (Inl e, client')"
  shows "run_step_websocket_request coll env rn step =
           Some (Inl e, rn\<lparr>websocket_client := Some client'\<rparr>)"
  unfolding run_step_until_request [OF vars parsed d client hooks url] fails by simp

theorem request_error_propagates_witness:
  "run_step_websocket_request plain_coll refusing_env
     (fresh_runner\<lparr>websocket_client := Some connected_client\<rparr>)
     (open_step\<lparr>step_websocket_request :=
        (step_websocket_request open_step)\<lparr>req_type := Some R\<rparr>\<rparr>) =
   Some (Inl (LibraryError ''connection refused''),
         fresh_runner\<lparr>websocket_client := Some (connected_client\<lparr>io := [ERecv]\<rparr>)\<rparr>)"
proof -
  let ?rn = "fresh_runner\<lparr>websocket_client := Some connected_client\<rparr>"
  let ?req = "(step_websocket_request open_step)\<lparr>req_type := Some R\<rparr>"
  let ?step = "open_step\<lparr>step_websocket_request := ?req\<rparr>"
  let ?d = "?req\<lparr>req_headers := resolve_headers (case_id ?rn) (now plain_coll 1) (req_headers ?req)\<rparr>"
  have fails: "send_request refusing_env (req_type ?d) ''ws://echo/ws'' (request_options ?d)
        connected_client =
      Some (Inl (LibraryError ''connection refused''), connected_client\<lparr>io := [ERecv]\<rparr>)"
    by (simp add: send_request_def dispatch_def supplied_def request_options_def
          read_into_text_def read_def client_recv_def call_def refusing_env_def echo_env_def
          connected_client_def init_client_def open_step_def)
  have "run_step_websocket_request plain_coll refusing_env ?rn ?step =
      Some (Inl (LibraryError ''connection refused''),
            ?rn\<lparr>websocket_client := Some (connected_client\<lparr>io := [ERecv]\<rparr>)\<rparr>)"
  proof (rule request_error_propagates [where vars = "[]" and parsed = ?req and d = ?d
        and client = connected_client and vars' = "[]" and url = "''ws://echo/ws''"])
    show "parse_variables plain_coll (step_variables ?step) = Inr []"
      by (simp add: plain_coll_def open_step_def)
    show "parse_data plain_coll (step_websocket_request ?step) [] = Inr ?req"
      by (simp add: plain_coll_def)
    show "?d = ?d" by (rule refl)
    show "(case websocket_client ?rn of
             Some c \<Rightarrow> Inr c
           | None \<Rightarrow> if websocket_ready plain_coll then Inr init_client else Inl SystemExit)
          = Inr connected_client"
      by simp
    show "(if step_setup_hooks ?step \<noteq> []
           then call_hooks plain_coll (step_setup_hooks ?step) [] ?d connected_client
           else Inr []) = Inr []"
      by (simp add: plain_coll_def)
    show "build_url plain_coll (base_url ?rn) (req_url ?d) = Inr ''ws://echo/ws''"
      by (simp add: plain_coll_def fresh_runner_def open_step_def)
    show "send_request refusing_env (req_type ?d) ''ws://echo/ws'' (request_options ?d)
        connected_client =
      Some (Inl (LibraryError ''connection refused''), connected_client\<lparr>io := [ERecv]\<rparr>)"
      by (rule fails)
  qed
  then show ?thesis by simp
qed

text \<open>
  The claim as the specification words it asks for a \<^verbatim>\<open>StepResult\<close> with
  \<^verbatim>\<open>success = False\<close> when the connection is refused. The run ends with the error of
  the transport instead.
\<close>

theorem request_error_propagates_counterexample:
  "map_option fst (run_step_websocket_request plain_coll refusing_env fresh_runner open_step) =
     Some (Inl (LibraryError ''connection refused''))"
  by (simp add: run_step_websocket_request_def Let_def plain_coll_def fresh_runner_def
        open_step_def send_request_def dispatch_def supplied_def request_options_def
        open_connection_def client_connect_def call_def refusing_env_def echo_env_def
        init_client_def)

text \<open>
  Claim C4. Let every phase up to the extraction succeed, and let \<open>v\<close> be the outcome of
  \<^verbatim>\<open>resp_obj.validate\<close>. Then \<^verbatim>\<open>run_step_websocket_request\<close> returns a \<^verbatim>\<open>StepResult\<close> and
  does not raise, whatever \<open>v\<close> is. When \<^verbatim>\<open>validate\<close> raised \<^verbatim>\<open>ValidationFailure\<close>, the
  result has \<^verbatim>\<open>success = False\<close> and \<^verbatim>\<open>failure_info\<close> is the failure report of the
  response object; when it raised nothing, \<^verbatim>\<open>success = True\<close>. In every outcome the
  result carries the elapsed time, the difference of the two clock readings, and the
  session data, whose \<^verbatim>\<open>success\<close> is that of the result and whose \<^verbatim>\<open>validators\<close> are the
  results of the assertions.
\<close>

theorem validation_failure_recorded:
  assumes vars: "parse_variables coll (step_variables step) = Inr vars"
    and parsed: "parse_data coll (step_websocket_request step) vars = Inr parsed"
    and d: "d = parsed\<lparr>req_headers :=
                  resolve_headers (case_id rn) (now coll 1) (req_headers parsed)\<rparr>"
    and client: "(case websocket_client rn of
                    Some c \<Rightarrow> Inr c
                  | None \<Rightarrow> if websocket_ready coll then Inr init_client else Inl SystemExit)
                 = Inr client"
    and hooks: "(if step_setup_hooks step \<noteq> []
                 then call_hooks coll (step_setup_hooks step) vars d client else Inr vars)
                = Inr vars'"
    and url: "build_url coll (base_url rn) (req_url d) = Inr url"
    and sent: "send_request env (req_type d) url (request_options d) client
                = Some (Inr (), client')"
    and teardown: "(if step_teardown_hooks step \<noteq> []
                    then call_hooks coll (step_teardown_hooks step) vars' d client'
                    else Inr vars') = Inr tvars"
    and extr: "extract_values coll (step_extract step) tvars client' = Inr extracted"
    and v: "v = validate coll (step_validators step) (dict_update tvars extracted) client'"
  shows "\<exists>r. run_step_websocket_request coll env rn step =
             Some (Inr r, rn\<lparr>websocket_client := Some client',
                              session_data := (session_data rn)
                                \<lparr>sd_success := res_success r,
                                 sd_validators := validation_results v\<rparr>\<rparr>)
       \<and> res_elapsed r = Some (now coll 2 - now coll 0)
       \<and> res_data r = Some ((session_data rn)\<lparr>sd_success := res_success r,
                                                sd_validators := validation_results v\<rparr>)
       \<and> (raised v = Some ValidationFailure \<longrightarrow>
            res_success r = False \<and> res_failure_info r = Some (failures_string v))
       \<and> (raised v = None \<longrightarrow> res_success r = True \<and> res_failure_info r = None)"
proof -
  have run: "run_step_websocket_request coll env rn step =
      Some (after_request coll step (now coll 0) vars' d client'
              (rn\<lparr>websocket_client := Some client'\<rparr>)
              \<lparr>res_name = step_name step, res_step_type = ''websocket request'',
               res_success = False, res_content_size = 0, res_export_vars = None,
               res_failure_info = None, res_data = None, res_elapsed = None\<rparr>)"
    unfolding run_step_until_request [OF vars parsed d client hooks url] sent by simp
  show ?thesis
  proof (cases "raised v")
    case None
    then show ?thesis
      using teardown extr unfolding run v
      by (simp add: after_request_def validate_and_finish_def Let_def)
  next
    case (Some e)
    then show ?thesis
      using teardown extr unfolding run v
      by (simp add: after_request_def validate_and_finish_def Let_def)
  qed
qed

theorem validation_failure_recorded_witness:
  "\<exists>r rn'. run_step_websocket_request failing_coll echo_env fresh_runner open_step =
             Some (Inr r, rn')
     \<and> res_success r = False
     \<and> res_failure_info r = Some ''assert status_code equal 200''
     \<and> res_elapsed r = Some 2
     \<and> res_data r = Some \<lparr>sd_success = False,
                            sd_validators = PList [PStr ''fail'', PStr ''pass'']\<rparr>"
proof -
  let ?req = "step_websocket_request open_step"
  let ?d = "?req\<lparr>req_headers :=
      resolve_headers (case_id fresh_runner) (now failing_coll 1) (req_headers ?req)\<rparr>"
  let ?v = "validate failing_coll (step_validators open_step) (dict_update [] []) "
  have "\<exists>c. send_request echo_env (req_type ?d) ''ws://echo/ws'' (request_options ?d) init_client
      = Some (Inr (), c)"
    by (simp add: send_request_def dispatch_def supplied_def request_options_def
          open_connection_def client_connect_def call_def echo_env_def init_client_def
          open_step_def)
  then obtain c where sent:
    "send_request echo_env (req_type ?d) ''ws://echo/ws'' (request_options ?d) init_client
      = Some (Inr (), c)" ..
  have "\<exists>r. run_step_websocket_request failing_coll echo_env fresh_runner open_step =
             Some (Inr r, fresh_runner\<lparr>websocket_client := Some c,
                              session_data := (session_data fresh_runner)
                                \<lparr>sd_success := res_success r,
                                 sd_validators := validation_results (?v c)\<rparr>\<rparr>)
       \<and> res_elapsed r = Some (now failing_coll 2 - now failing_coll 0)
       \<and> res_data r = Some ((session_data fresh_runner)\<lparr>sd_success := res_success r,
                                                sd_validators := validation_results (?v c)\<rparr>)
       \<and> (raised (?v c) = Some ValidationFailure \<longrightarrow>
            res_success r = False \<and> res_failure_info r = Some (failures_string (?v c)))
       \<and> (raised (?v c) = None \<longrightarrow> res_success r = True \<and> res_failure_info r = None)"
  proof (rule validation_failure_recorded [where vars = "[]" and parsed = ?req and d = ?d
        and client = init_client and vars' = "[]" and url = "''ws://echo/ws''"
        and tvars = "[]" and extracted = "[]"])
    show "parse_variables failing_coll (step_variables open_step) = Inr []"
      by (simp add: failing_coll_def plain_coll_def open_step_def)
    show "parse_data failing_coll (step_websocket_request open_step) [] = Inr ?req"
      by (simp add: failing_coll_def plain_coll_def)
    show "?d = ?d" by (rule refl)
    show "(case websocket_client fresh_runner of
             Some c \<Rightarrow> Inr c
           | None \<Rightarrow> if websocket_ready failing_coll then Inr init_client else Inl SystemExit)
          = Inr init_client"
      by (simp add: failing_coll_def plain_coll_def fresh_runner_def)
    show "(if step_setup_hooks open_step \<noteq> []
           then call_hooks failing_coll (step_setup_hooks open_step) [] ?d init_client
           else Inr []) = Inr []"
      by (simp add: open_step_def)
    show "build_url failing_coll (base_url fresh_runner) (req_url ?d) = Inr ''ws://echo/ws''"
      by (simp add: failing_coll_def plain_coll_def fresh_runner_def open_step_def)
    show "send_request echo_env (req_type ?d) ''ws://echo/ws'' (request_options ?d) init_client
      = Some (Inr (), c)"
      by (rule sent)
    show "(if step_teardown_hooks open_step \<noteq> []
           then call_hooks failing_coll (step_teardown_hooks open_step) [] ?d c
           else Inr []) = Inr []"
      by (simp add: open_step_def)
    show "extract_values failing_coll (step_extract open_step) [] c = Inr []"
      by (simp add: failing_coll_def plain_coll_def)
    show "?v c = ?v c" by (rule refl)
  qed
  then obtain r where r:
    "run_step_websocket_request failing_coll echo_env fresh_runner open_step =
       Some (Inr r, fresh_runner\<lparr>websocket_client := Some c,
                        session_data := (session_data fresh_runner)
                          \<lparr>sd_success := res_success r,
                           sd_validators := validation_results (?v c)\<rparr>\<rparr>)"
    "res_elapsed r = Some (now failing_coll 2 - now failing_coll 0)"
    "res_data r = Some ((session_data fresh_runner)\<lparr>sd_success := res_success r,
                                          sd_validators := validation_results (?v c)\<rparr>)"
    "raised (?v c) = Some ValidationFailure \<longrightarrow>
       res_success r = False \<and> res_failure_info r = Some (failures_string (?v c))"
    by blast
  have failed: "raised (?v c) = Some ValidationFailure"
    "failures_string (?v c) = ''assert status_code equal 200''"
    "validation_results (?v c) = PList [PStr ''fail'', PStr ''pass'']"
    by (simp_all add: failing_coll_def plain_coll_def)
  from r(4) failed have no: "res_success r = False"
    and info: "res_failure_info r = Some ''assert status_code equal 200''"
    by simp_all
  have elapsed: "res_elapsed r = Some 2"
    using r(2) by (simp add: failing_coll_def plain_coll_def)
  have data: "res_data r = Some \<lparr>sd_success = False,
                            sd_validators = PList [PStr ''fail'', PStr ''pass'']\<rparr>"
    using r(3) no failed(3) by (simp add: fresh_runner_def)
  from r(1) no info elapsed data show ?thesis by blast
qed

end
